theory Spec2Isabelle
  imports Complex_Main "HOL-Library.Multiset" "HOL-Library.Log_Nat"
begin

unbundle bit_operations_syntax

section \<open>Numbers of loner.py\<close>

text \<open>
  A floating point value is a rational number, an infinity or NaN; the sign of a zero is not
  kept, it has no effect on anything the script computes.  \<open>fround p emin emax\<close> rounds an
  exact value to the nearest number with \<open>p\<close> significant bits and exponents from \<open>emin\<close>
  to \<open>emax\<close>, ties to even, with gradual underflow and with overflow to an infinity (when
  the rounded value would need an exponent above \<open>emax\<close>):
  IEEE 754 round-to-nearest, which numpy and Python use.  \<open>float32\<close> and \<open>float64\<close> are the
  two formats of the script.
\<close>

datatype fl = Fin rat | PInf | NInf | NaN

text \<open>The exponent of the leading bit of a positive number: \<open>2 ^ ilog2 x \<le> x < 2 ^ (ilog2 x + 1)\<close>.\<close>

definition ilog2 :: "rat \<Rightarrow> int" where
  "ilog2 x = (if 1 \<le> x then bitlen \<lfloor>x\<rfloor> - 1 else - bitlen (\<lceil>1 / x\<rceil> - 1))"

definition round_even :: "rat \<Rightarrow> int" where
  "round_even x =
     (let f = \<lfloor>x\<rfloor>; d = x - of_int f
      in if d < 1 / 2 then f else if 1 / 2 < d then f + 1 else if even f then f else f + 1)"

definition fround :: "nat \<Rightarrow> int \<Rightarrow> int \<Rightarrow> rat \<Rightarrow> fl" where
  "fround p emin emax x =
     (if x = 0 then Fin 0
      else
        (let e = max (ilog2 \<bar>x\<bar> - int p + 1) (emin - int p + 1);
             y = of_int (round_even (x / 2 powi e)) * 2 powi e
         in if y \<noteq> 0 \<and> emax < ilog2 \<bar>y\<bar> then (if 0 < x then PInf else NInf) else Fin y))"

definition float32 :: "rat \<Rightarrow> fl" where
  "float32 = fround 24 (- 126) 127"

definition float64 :: "rat \<Rightarrow> fl" where
  "float64 = fround 53 (- 1022) 1023"

text \<open>
  Addition, multiplication and division of two floating point values; the first argument is
  the rounding of the format the operation is carried out in.
\<close>

fun f_add :: "(rat \<Rightarrow> fl) \<Rightarrow> fl \<Rightarrow> fl \<Rightarrow> fl" where
  "f_add r (Fin x) (Fin y) = r (x + y)"
| "f_add r NaN v = NaN"
| "f_add r u NaN = NaN"
| "f_add r PInf NInf = NaN"
| "f_add r NInf PInf = NaN"
| "f_add r PInf v = PInf"
| "f_add r NInf v = NInf"
| "f_add r u PInf = PInf"
| "f_add r u NInf = NInf"

definition f_sign :: "fl \<Rightarrow> int" where
  "f_sign u =
     (case u of
        Fin x \<Rightarrow> (if 0 < x then 1 else if x < 0 then - 1 else 0)
      | PInf \<Rightarrow> 1 | NInf \<Rightarrow> - 1 | NaN \<Rightarrow> 0)"

definition f_inf :: "int \<Rightarrow> fl" where
  "f_inf s = (if s = 0 then NaN else if 0 < s then PInf else NInf)"

fun f_mul :: "(rat \<Rightarrow> fl) \<Rightarrow> fl \<Rightarrow> fl \<Rightarrow> fl" where
  "f_mul r (Fin x) (Fin y) = r (x * y)"
| "f_mul r NaN v = NaN"
| "f_mul r u NaN = NaN"
| "f_mul r u v = f_inf (f_sign u * f_sign v)"

fun f_div :: "(rat \<Rightarrow> fl) \<Rightarrow> fl \<Rightarrow> fl \<Rightarrow> fl" where
  "f_div r (Fin x) (Fin y) = (if y = 0 then f_inf (f_sign (Fin x)) else r (x / y))"
| "f_div r NaN v = NaN"
| "f_div r u NaN = NaN"
| "f_div r (Fin x) v = Fin 0"
| "f_div r u (Fin y) = f_inf (f_sign u * (if y < 0 then - 1 else 1))"
| "f_div r u v = NaN"

text \<open>
  Python's \<open>int(x)\<close> on a float truncates towards zero; it raises OverflowError on an
  infinity and ValueError on NaN.  Python's \<open>float(n)\<close> of an integer, as \<open>x * n\<close> does
  it, is the nearest double and an OverflowError beyond the doubles.
\<close>

datatype error =
    IndexError | ValueError | AssertionError | UnboundLocalError | ZeroDivisionError
  | KeyError | SystemExit | OverflowError | TypeError

definition py_int :: "fl \<Rightarrow> error + int" where
  "py_int u =
     (case u of
        Fin r \<Rightarrow> Inr (if 0 \<le> r then \<lfloor>r\<rfloor> else \<lceil>r\<rceil>)
      | NaN \<Rightarrow> Inl ValueError
      | PInf \<Rightarrow> Inl OverflowError
      | NInf \<Rightarrow> Inl OverflowError)"

definition py_float_of_int :: "int \<Rightarrow> error + fl" where
  "py_float_of_int n =
     (case float64 (rat_of_int n) of Fin r \<Rightarrow> Inr (Fin r) | v \<Rightarrow> Inl OverflowError)"

section \<open>Data model\<close>

text \<open>
  The expression matrix is a cells x genes array, a list of rows here; \<open>is_matrix X G\<close> says
  that every row has \<open>G\<close> genes, as every numpy array has.  The element type of an array is
  what numpy calls its dtype.  The script never names the dtype of the matrix it loads, so
  the two operations of a dtype that the doublet rules use are a parameter: the addition of
  two elements, and the conversion of an element to float64.  \<open>np_float32\<close> is the dtype in
  which the dataset class of the external library keeps a dense matrix, and in which the
  script allocates \<open>X_doublets\<close> (line 221): its addition rounds to float32, and every
  float32 is a float64.
\<close>

type_synonym matrix = "fl list list"

record dtype =
  dt_add :: "fl \<Rightarrow> fl \<Rightarrow> fl"
  dt_float64 :: "fl \<Rightarrow> fl"

definition np_float32 :: dtype where
  "np_float32 = \<lparr>dt_add = f_add float32, dt_float64 = (\<lambda>v. v)\<rparr>"

definition is_matrix :: "matrix \<Rightarrow> nat \<Rightarrow> bool" where
  "is_matrix X G = list_all (\<lambda>r. length r = G) X"

text \<open>Indexing an array with one integer: a negative index counts from the end.\<close>

definition getitem :: "'a list \<Rightarrow> int \<Rightarrow> error + 'a" where
  "getitem xs i =
     (if 0 \<le> i \<and> i < int (length xs) then Inr (xs ! nat i)
      else if - int (length xs) \<le> i \<and> i < 0 then Inr (xs ! nat (int (length xs) + i))
      else Inl IndexError)"

record kwargs =
  doublet_depth :: fl
  cell_depths :: "fl list"

section \<open>The three doublet rules\<close>

text \<open>
  \<open>create_average_doublet\<close> (lines 27-28): \<open>(X[i, :] + X[j, :]).astype('float64') / 2\<close>.  The
  rows are added in the dtype of \<open>X\<close>, the sum is converted to float64 and halved in
  float64.  The keyword arguments are accepted and not read.
\<close>

definition create_average_doublet ::
    "dtype \<Rightarrow> matrix \<Rightarrow> int \<Rightarrow> int \<Rightarrow> kwargs \<Rightarrow> error + fl list" where
  "create_average_doublet dt X i j kw =
     (case getitem X i of Inl e \<Rightarrow> Inl e | Inr a \<Rightarrow>
       (case getitem X j of Inl e \<Rightarrow> Inl e | Inr b \<Rightarrow>
          Inr (map (\<lambda>v. f_div float64 v (Fin 2))
                 (map (dt_float64 dt) (map2 (dt_add dt) a b)))))"

text \<open>\<open>create_summed_doublet\<close> (lines 31-32): \<open>(X[i, :] + X[j, :]).astype('float64')\<close>.\<close>

definition create_summed_doublet ::
    "dtype \<Rightarrow> matrix \<Rightarrow> int \<Rightarrow> int \<Rightarrow> kwargs \<Rightarrow> error + fl list" where
  "create_summed_doublet dt X i j kw =
     (case getitem X i of Inl e \<Rightarrow> Inl e | Inr a \<Rightarrow>
       (case getitem X j of Inl e \<Rightarrow> Inl e | Inr b \<Rightarrow>
          Inr (map (dt_float64 dt) (map2 (dt_add dt) a b))))"

text \<open>
  \<open>create_multinomial_doublet\<close> (lines 35-51).  Two calls leave the script: \<open>dp.sum()\<close>, a
  numpy reduction whose order of additions is numpy's own, and \<open>multinomial.rvs(n, p)\<close>,
  the sampler of scipy, which draws from the random generator or raises (on a negative or
  too large \<open>n\<close>, on probabilities that are NaN or outside \<open>[0, 1]\<close>).  Both are
  arguments here.  The rows are added in the dtype of \<open>X\<close> and converted to float64, each
  entry is divided by the total in float64 (a zero total leaves NaN or infinities, numpy
  warns and goes on), and the depth is \<open>int\<close> of a float64: the two depths are added in the
  dtype of \<open>X\<close>, and numpy carries out the product with the Python float \<open>doublet_depth\<close>
  and the halving in float64.
\<close>

definition create_multinomial_doublet ::
    "dtype \<Rightarrow> (fl list \<Rightarrow> fl) \<Rightarrow> (int \<Rightarrow> fl list \<Rightarrow> error + nat list)
       \<Rightarrow> matrix \<Rightarrow> int \<Rightarrow> int \<Rightarrow> kwargs \<Rightarrow> error + nat list" where
  "create_multinomial_doublet dt np_sum rvs X i j kw =
     (case getitem X i of Inl e \<Rightarrow> Inl e | Inr a \<Rightarrow>
       (case getitem X j of Inl e \<Rightarrow> Inl e | Inr b \<Rightarrow>
          (let dp = map (dt_float64 dt) (map2 (dt_add dt) a b);
               s = np_sum dp;
               p = map (\<lambda>v. f_div float64 v s) dp
           in case getitem (cell_depths kw) i of Inl e \<Rightarrow> Inl e | Inr ci \<Rightarrow>
               (case getitem (cell_depths kw) j of Inl e \<Rightarrow> Inl e | Inr cj \<Rightarrow>
                  (case py_int (f_div float64
                                 (f_mul float64 (doublet_depth kw) (dt_float64 dt (dt_add dt ci cj)))
                                 (Fin 2)) of
                     Inl e \<Rightarrow> Inl e
                   | Inr dd \<Rightarrow> rvs dd p)))))"

section \<open>The dataset class of the external library\<close>

text \<open>
  \<open>GeneExpressionDataset\<close> belongs to the external library.  Its constructor stores the matrix
  and renumbers the batch indices and the labels through \<open>arrange_categories\<close>: every value is
  replaced by its rank among the distinct values present.  It also checks that the matrix has
  one column per gene name, so the number of genes of a dataset is the length of
  \<open>gene_names\<close>.  The library-size statistics (\<open>local_means\<close>, \<open>local_vars\<close>) play no part in
  labels or array lengths and are left out.
\<close>

record dataset =
  Xmat :: matrix
  labels :: "nat list"
  batch_indices :: "nat list"
  gene_names :: "string list"
  n_labels :: nat

definition arrange_categories :: "nat list \<Rightarrow> nat list" where
  "arrange_categories cs = map (\<lambda>c. length (filter (\<lambda>u. u < c) (remdups cs))) cs"

definition GeneExpressionDataset ::
    "matrix \<Rightarrow> nat list \<Rightarrow> nat list \<Rightarrow> string list \<Rightarrow> dataset" where
  "GeneExpressionDataset data batch labs names =
     \<lparr>Xmat = data, labels = arrange_categories labs,
      batch_indices = arrange_categories batch, gene_names = names,
      n_labels = length (remdups labs)\<rparr>"

text \<open>
  \<open>concat_datasets(a, b, shared_labels=True, shared_batches=True)\<close> on two datasets with the
  same gene names and no cell types: rows, batch indices and labels are concatenated and
  handed to the constructor.
\<close>

definition concat_datasets :: "dataset \<Rightarrow> dataset \<Rightarrow> dataset" where
  "concat_datasets a b =
     GeneExpressionDataset (Xmat a @ Xmat b) (batch_indices a @ batch_indices b)
       (labels a @ labels b) (gene_names a)"

text \<open>\<open>make_gene_expression_dataset\<close> (lines 54-61): batch of zeros, labels of ones.\<close>

definition make_gene_expression_dataset :: "matrix \<Rightarrow> string list \<Rightarrow> dataset" where
  "make_gene_expression_dataset data names =
     (let data_length = length data;
          batch = replicate data_length 0;
          labs = replicate data_length 1
      in GeneExpressionDataset data batch labs names)"

section \<open>The known-doublets column\<close>

text \<open>
  \<open>pd.read_csv(file, header=None)[0].values\<close> (lines 123-124) is the first column of the file
  as a numpy array, and pandas chooses its dtype from the entries: a column of \<open>True\<close> and
  \<open>False\<close> is a boolean array, a column of integers (a file of 0 and 1 is one) an int64
  array, anything else an array of floats or of objects.  The array is used as an index of
  the matrix and of the labels, and numpy reads the three kinds differently: a boolean array
  of the right length is a mask, an integer array is a list of positions (negative ones
  counted from the end), and no other array is an index.  \<open>~\<close> negates a mask and
  complements an integer bitwise.
\<close>

datatype csv_value = CBool bool | CInt int | COther

datatype np_index = BoolIndex "bool list" | IntIndex "int list" | ObjectIndex nat

fun bool_of :: "csv_value \<Rightarrow> bool option" where
  "bool_of (CBool b) = Some b"
| "bool_of v = None"

fun int_of :: "csv_value \<Rightarrow> int option" where
  "int_of (CInt k) = Some k"
| "int_of v = None"

definition pandas_values :: "csv_value list \<Rightarrow> np_index" where
  "pandas_values vs =
     (if list_all (\<lambda>v. bool_of v \<noteq> None) vs then BoolIndex (map (\<lambda>v. v = CBool True) vs)
      else if list_all (\<lambda>v. int_of v \<noteq> None) vs then IntIndex (map (\<lambda>v. the (int_of v)) vs)
      else ObjectIndex (length vs))"

fun index_length :: "np_index \<Rightarrow> nat" where
  "index_length (BoolIndex m) = length m"
| "index_length (IntIndex ks) = length ks"
| "index_length (ObjectIndex n) = n"

text \<open>The truth value of each entry: an integer is true when it is not zero.\<close>

fun truth :: "np_index \<Rightarrow> bool list" where
  "truth (BoolIndex m) = m"
| "truth (IntIndex ks) = map (\<lambda>k. k \<noteq> 0) ks"
| "truth (ObjectIndex n) = replicate n False"

text \<open>\<open>X[mask]\<close> with a boolean mask of the length of \<open>X\<close> keeps the rows where the mask holds.\<close>

definition mask_select :: "'a list \<Rightarrow> bool list \<Rightarrow> 'a list" where
  "mask_select xs m = map fst (filter snd (zip xs m))"

definition in_range :: "nat \<Rightarrow> int \<Rightarrow> bool" where
  "in_range n k = (- int n \<le> k \<and> k < int n)"

definition position :: "nat \<Rightarrow> int \<Rightarrow> nat" where
  "position n k = nat (k mod int n)"

text \<open>\<open>xs[index]\<close> along the first axis.\<close>

fun take_rows :: "'a list \<Rightarrow> np_index \<Rightarrow> error + 'a list" where
  "take_rows xs (BoolIndex m) =
     (if length m = length xs then Inr (mask_select xs m) else Inl IndexError)"
| "take_rows xs (IntIndex ks) =
     (if list_all (in_range (length xs)) ks
      then Inr (map (\<lambda>k. xs ! position (length xs) k) ks) else Inl IndexError)"
| "take_rows xs (ObjectIndex n) = Inl IndexError"

text \<open>\<open>~index\<close>; numpy has no \<open>~\<close> for an array of objects or floats.\<close>

fun np_invert :: "np_index \<Rightarrow> error + np_index" where
  "np_invert (BoolIndex m) = Inr (BoolIndex (map Not m))"
| "np_invert (IntIndex ks) = Inr (IntIndex (map (\<lambda>k. NOT k) ks))"
| "np_invert (ObjectIndex n) = Inl TypeError"

text \<open>
  \<open>labels[index] += 1\<close>: numpy reads the selected labels, adds one and writes them back, so
  a position that an integer index names more than once is still raised by one.
\<close>

fun add_one_at :: "nat list \<Rightarrow> np_index \<Rightarrow> error + nat list" where
  "add_one_at ls (BoolIndex m) =
     (if length m = length ls then Inr (map2 (\<lambda>l k. if k then Suc l else l) ls m)
      else Inl IndexError)"
| "add_one_at ls (IntIndex ks) =
     (if list_all (in_range (length ls)) ks
      then Inr (map (\<lambda>c. if c \<in> set (map (position (length ls)) ks) then Suc (ls ! c) else ls ! c)
                  [0..<length ls])
      else Inl IndexError)"
| "add_one_at ls (ObjectIndex n) = Inl IndexError"

section \<open>The environment of a run\<close>

text \<open>
  Everything \<open>main\<close> takes from outside the script is a field of \<open>world\<close>: the two file
  loaders, the JSON file of hyperparameters, the entries of the first column of the
  known-doublets file, the raw output of the random generator for the pair of cells of
  doublet \<open>di\<close>, numpy's reduction of a row, scipy's sampler at doublet \<open>di\<close>, numpy's
  \<open>argpartition\<close> and the two prediction calls of the classifier trainer.  The calls that
  train and evaluate models are assumed to return; what they leave in a run is an event of its
  trace.  Plots and the printed accuracies carry no data into the saved arrays and are left
  out.  The two float options hold what optparse's \<open>float\<close> returns, which may be an infinity
  or NaN.
\<close>

datatype doublet_kind = Multinomial | Average | Sum

record options =
  opt_doublet_depth :: fl
  opt_doublet_ratio :: fl
  opt_seed :: "string option"
  opt_known_doublets :: "string option"
  opt_doublet_type :: doublet_kind
  opt_expected_number_of_doublets :: "int option"

record world =
  LoomDataset :: "string \<Rightarrow> dataset"
  AnnDataset :: "string \<Rightarrow> dataset"
  json_load :: "string \<Rightarrow> string \<Rightarrow> rat option"
  read_csv :: "string \<Rightarrow> csv_value list"
  random_choice :: "nat \<Rightarrow> nat \<times> nat"
  np_sum :: "fl list \<Rightarrow> fl"
  multinomial_rvs :: "nat \<Rightarrow> int \<Rightarrow> fl list \<Rightarrow> error + nat list"
  argpartition :: "rat list \<Rightarrow> nat \<Rightarrow> nat list"
  compute_predictions_soft :: "dataset \<Rightarrow> (rat \<times> rat) list"
  compute_predictions :: "dataset \<Rightarrow> nat list"

datatype event =
    Print string | LoadVAE string | TrainVAE | SimulateDoublet nat | TrainClassifier

type_synonym 'a result = "(error \<times> event list) + 'a"

text \<open>
  What a run saves.  \<open>is_doublet_array\<close> and \<open>is_doublet_sim_array\<close> are the arrays written
  to is_doublet.npy and is_doublet_sim.npy: boolean, or int64 when the known-doublets column
  was read as integers.
\<close>

record outputs =
  scores_npy :: "rat list"
  scores_sim_npy :: "rat list"
  is_doublet_array :: np_index
  is_doublet_sim_array :: np_index
  preds_npy :: "nat list"
  preds_sim_npy :: "nat list"
  classifier_data :: dataset
  num_doublets :: int
  threshold :: rat
  trace :: "event list"

text \<open>The flags of is_doublet.npy and is_doublet_sim.npy: the truth value of each entry.\<close>

definition is_doublet_npy :: "outputs \<Rightarrow> bool list" where
  "is_doublet_npy out = truth (is_doublet_array out)"

definition is_doublet_sim_npy :: "outputs \<Rightarrow> bool list" where
  "is_doublet_sim_npy out = truth (is_doublet_sim_array out)"

section \<open>main, stage by stage\<close>

subsection \<open>Reading the data file\<close>

text \<open>
  \<open>os.path.splitext(p)[-1]\<close>: the extension starts at the last dot of the last path
  component, unless only dots stand before it there.
\<close>

definition splitext_ext :: "string \<Rightarrow> string" where
  "splitext_ext p =
     (let base = rev (takeWhile (\<lambda>c. c \<noteq> CHR ''/'') (rev p));
          tail = takeWhile (\<lambda>c. c \<noteq> CHR ''.'') (rev base);
          front = dropWhile (\<lambda>c. c \<noteq> CHR ''.'') (rev base)
      in if list_ex (\<lambda>c. c \<noteq> CHR ''.'') front then CHR ''.'' # rev tail else [])"

text \<open>
  The branch on the extension (lines 110-116).  Its last arm only prints: \<open>scvi_data\<close> stays unbound, which
  is the \<open>None\<close> here.
\<close>

definition read_data :: "world \<Rightarrow> string \<Rightarrow> event list \<times> dataset option" where
  "read_data w data_file =
     (let data_ext = splitext_ext data_file
      in if data_ext = ''.loom'' then ([], Some (LoomDataset w data_file))
         else if data_ext = ''.h5ad'' then ([], Some (AnnDataset w data_file))
         else ([Print ''Unrecognized file format''], None))"

text \<open>The next statement (line 118) reads \<open>scvi_data.X.shape\<close>; on an unbound name Python raises.\<close>

definition load_data :: "world \<Rightarrow> string \<Rightarrow> (dataset \<times> event list) result" where
  "load_data w data_file =
     (case read_data w data_file of
        (tr, None) \<Rightarrow> Inl (UnboundLocalError, tr)
      | (tr, Some scvi_data) \<Rightarrow> Inr (scvi_data, tr))"

subsection \<open>Splitting out the known doublets\<close>

text \<open>
  Lines 120-138.  With a known-doublets file the two notices are printed, the column is read,
  its length is asserted to be the number of rows, and the matrix is indexed with the column
  and with its complement.  Without a file the variable \<open>known_doublets\<close> is an array of
  \<open>False\<close>.
\<close>

definition split_known ::
    "world \<Rightarrow> options \<Rightarrow> dataset \<Rightarrow> event list
       \<Rightarrow> (np_index \<times> dataset option \<times> dataset \<times> event list) result" where
  "split_known w opts scvi_data tr =
     (case opt_known_doublets opts of
        Some file \<Rightarrow>
          (let tr' = tr @ [Print ''Removing known doublets for in silico doublet generation'',
                           Print ''Make sure known doublets are in the same order as your data''];
               known_doublets = pandas_values (read_csv w file)
           in if index_length known_doublets \<noteq> length (Xmat scvi_data)
              then Inl (AssertionError, tr')
              else
                (case take_rows (Xmat scvi_data) known_doublets of
                   Inl e \<Rightarrow> Inl (e, tr')
                 | Inr known_rows \<Rightarrow>
                     (case np_invert known_doublets of
                        Inl e \<Rightarrow> Inl (e, tr')
                      | Inr inverted \<Rightarrow>
                          (case take_rows (Xmat scvi_data) inverted of
                             Inl e \<Rightarrow> Inl (e, tr')
                           | Inr singlet_rows \<Rightarrow>
                               Inr (known_doublets,
                                    Some (make_gene_expression_dataset known_rows
                                            (gene_names scvi_data)),
                                    make_gene_expression_dataset singlet_rows
                                      (gene_names scvi_data),
                                    tr')))))
      | None \<Rightarrow>
          Inr (BoolIndex (replicate (length (Xmat scvi_data)) False), None, scvi_data, tr))"

subsection \<open>The autoencoder\<close>

text \<open>
  Lines 163-208.  A seed that is given (and not the empty string) is loaded; otherwise the
  model is trained.
\<close>

definition train_vae :: "options \<Rightarrow> event list \<Rightarrow> event list" where
  "train_vae opts tr =
     (case opt_seed opts of
        None \<Rightarrow> tr @ [TrainVAE]
      | Some s \<Rightarrow> if s = [] then tr @ [TrainVAE] else tr @ [LoadVAE s])"

subsection \<open>Simulating doublets\<close>

text \<open>
  A row is stored in \<open>X_doublets\<close>, a float32 array with one column per gene: the values are
  converted to float32, and a row of another length is refused unless it has one entry, which
  numpy repeats.
\<close>

definition to_float32 :: "fl \<Rightarrow> fl" where
  "to_float32 v = (case v of Fin x \<Rightarrow> float32 x | u \<Rightarrow> u)"

definition store_row :: "nat \<Rightarrow> fl list \<Rightarrow> error + fl list" where
  "store_row G r =
     (if length r = G then Inr (map to_float32 r)
      else if length r = 1 then Inr (replicate G (to_float32 (hd r)))
      else Inl ValueError)"

text \<open>
  One pass of the loop body (lines 235-241): \<open>np.random.choice(singlet_num_cells, size=2)\<close>
  draws two cell indices below \<open>singlet_num_cells\<close> (it raises on an empty population), the
  chosen rule builds the doublet from the singlet matrix, a float32 array, and the row is
  stored.
\<close>

definition doublet_row ::
    "world \<Rightarrow> doublet_kind \<Rightarrow> nat \<Rightarrow> matrix \<Rightarrow> kwargs \<Rightarrow> nat \<Rightarrow> error + fl list" where
  "doublet_row w kind G X kw di =
     (if length X = 0 then Inl ValueError
      else
        (let i = int (fst (random_choice w di) mod length X);
             j = int (snd (random_choice w di) mod length X)
         in case (case kind of
                    Average \<Rightarrow> create_average_doublet np_float32 X i j kw
                  | Sum \<Rightarrow> create_summed_doublet np_float32 X i j kw
                  | Multinomial \<Rightarrow>
                      (case create_multinomial_doublet np_float32 (np_sum w)
                              (multinomial_rvs w di) X i j kw of
                         Inl e \<Rightarrow> Inl e
                       | Inr counts \<Rightarrow> Inr (map (\<lambda>c. Fin (rat_of_nat c)) counts))) of
              Inl e \<Rightarrow> Inl e
            | Inr r \<Rightarrow> store_row G r))"

text \<open>\<open>for di in range(num_doublets)\<close>, over the list of the values of \<open>di\<close> still to come.\<close>

fun simulate_loop ::
    "world \<Rightarrow> doublet_kind \<Rightarrow> nat \<Rightarrow> matrix \<Rightarrow> kwargs \<Rightarrow> nat list \<Rightarrow> matrix \<Rightarrow> event list
       \<Rightarrow> (matrix \<times> event list) result" where
  "simulate_loop w kind G X kw [] X_doublets tr = Inr (X_doublets, tr)"
| "simulate_loop w kind G X kw (di # dis) X_doublets tr =
     (case doublet_row w kind G X kw di of
        Inl e \<Rightarrow> Inl (e, tr @ [SimulateDoublet di])
      | Inr r \<Rightarrow> simulate_loop w kind G X kw dis (X_doublets @ [r]) (tr @ [SimulateDoublet di]))"

text \<open>
  \<open>int(x * n)\<close> for a Python float \<open>x\<close> and a count \<open>n\<close>: the count becomes a double, the
  product is rounded to a double, and \<open>int\<close> truncates it.
\<close>

definition int_of_product :: "fl \<Rightarrow> nat \<Rightarrow> error + int" where
  "int_of_product x n =
     (case py_float_of_int (int n) of
        Inl e \<Rightarrow> Inl e
      | Inr v \<Rightarrow> py_int (f_mul float64 x v))"

text \<open>
  Lines 214-241: the depths of the singlet cells (a numpy reduction of each row), the number
  of doublets, the assertion that follows the subtraction of the known doublets (it stands
  inside the branch for a known-doublets file), the allocation of \<open>X_doublets\<close> (\<open>np.zeros\<close>
  raises ValueError on a negative dimension) and the loop.  The number of genes is that of
  the loaded matrix, which the dataset class keeps equal to the number of gene names.
\<close>

definition simulate_doublets ::
    "world \<Rightarrow> options \<Rightarrow> nat \<Rightarrow> dataset option \<Rightarrow> dataset \<Rightarrow> event list
       \<Rightarrow> (int \<times> matrix \<times> event list) result" where
  "simulate_doublets w opts num_genes known_doublet_data singlet_scvi_data tr =
     (let singlet_num_cells = length (Xmat singlet_scvi_data);
          depths = map (np_sum w) (Xmat singlet_scvi_data)
      in case int_of_product (opt_doublet_ratio opts) singlet_num_cells of
           Inl e \<Rightarrow> Inl (e, tr)
         | Inr n0 \<Rightarrow>
             (let n = (case known_doublet_data of
                         None \<Rightarrow> n0
                       | Some kd \<Rightarrow> n0 - int (length (Xmat kd)))
              in if known_doublet_data \<noteq> None \<and> \<not> 0 \<le> n then Inl (AssertionError, tr)
                 else if n < 0 then Inl (ValueError, tr)
                 else
                   (case simulate_loop w (opt_doublet_type opts) num_genes
                           (Xmat singlet_scvi_data)
                           \<lparr>doublet_depth = opt_doublet_depth opts, cell_depths = depths\<rparr>
                           [0..<nat n] [] tr of
                      Inl x \<Rightarrow> Inl x
                    | Inr (X_doublets, tr') \<Rightarrow> Inr (n, X_doublets, tr'))))"

subsection \<open>The labelled dataset\<close>

text \<open>
  Lines 245-258.  The doublets get a dataset of their own, whose labels are raised by one; the
  labels of the real cells are raised by one where \<open>known_doublets\<close> points; both are
  concatenated, and the run goes on only if the labels take exactly two values.
\<close>

definition merge_datasets ::
    "dataset \<Rightarrow> np_index \<Rightarrow> matrix \<Rightarrow> event list \<Rightarrow> dataset result" where
  "merge_datasets scvi_data known_doublets X_doublets tr =
     (let doublet_data0 = make_gene_expression_dataset X_doublets (gene_names scvi_data);
          doublet_data = doublet_data0\<lparr>labels := map Suc (labels doublet_data0), n_labels := 2\<rparr>
      in case add_one_at (labels scvi_data) known_doublets of
           Inl e \<Rightarrow> Inl (e, tr)
         | Inr raised \<Rightarrow>
             (let cd = concat_datasets (scvi_data\<lparr>n_labels := 2, labels := raised\<rparr>)
                         doublet_data
              in if length (remdups (labels cd)) = 2 then Inr cd
                 else Inl (AssertionError, tr)))"

subsection \<open>The classifier\<close>

text \<open>
  Lines 264-285.  Three hyperparameters are read with \<open>params[...]\<close>, which raises on a
  missing key.
\<close>

definition train_classifier :: "(string \<Rightarrow> rat option) \<Rightarrow> event list \<Rightarrow> (event list) result" where
  "train_classifier params tr =
     (if params ''cl_hidden'' = None \<or> params ''cl_layers'' = None
         \<or> params ''dropout_rate'' = None
      then Inl (KeyError, tr)
      else Inr (tr @ [TrainClassifier]))"

subsection \<open>Scores, threshold and calls\<close>

text \<open>
  The text of the warning (lines 353-355), a literal of three lines: the second and the third
  start with the 19 blanks of the indentation.
\<close>

definition expected_warning :: string where
  "expected_warning =
     ''Make sure you actually expect more than half your cells'' @ [CHR 0x0A]
     @ replicate 19 (CHR '' '') @ ''to be doublets. If not change your'' @ [CHR 0x0A]
     @ replicate 19 (CHR '' '') @ ''-e parameter value''"

text \<open>
  The threshold (lines 349-360).  With an expected number of doublets: the quotient that decides about the
  warning divides by the number of scores; \<open>k\<close> is asserted positive; \<open>np.argpartition\<close>
  raises ValueError when \<open>k\<close> is not below the length; the scores at the first \<open>k\<close> indices
  are read and their maximum is taken.
\<close>

definition select_threshold ::
    "world \<Rightarrow> int option \<Rightarrow> rat list \<Rightarrow> event list \<Rightarrow> (rat \<times> event list) result" where
  "select_threshold w expected loner_scores tr =
     (case expected of
        None \<Rightarrow> Inr (1 / 2, tr)
      | Some e \<Rightarrow>
          (let k = int (length loner_scores) - e
           in if length loner_scores = 0 then Inl (ZeroDivisionError, tr)
              else
                (let tr' = (if 1 / 2 < rat_of_int e / rat_of_nat (length loner_scores)
                            then tr @ [Print expected_warning] else tr)
                 in if \<not> 0 < k then Inl (AssertionError, tr')
                    else if int (length loner_scores) \<le> k then Inl (ValueError, tr')
                    else
                      (let idx = argpartition w loner_scores (nat k)
                       in if \<not> list_all (\<lambda>i. i < length loner_scores) (take (nat k) idx)
                          then Inl (IndexError, tr')
                          else
                            (case map (\<lambda>i. loner_scores ! i) (take (nat k) idx) of
                               [] \<Rightarrow> Inl (ValueError, tr')
                             | v # vs \<Rightarrow> Inr (fold max vs v, tr'))))))"

text \<open>Line 361: \<open>order_score > threshold\<close>.\<close>

definition call_doublets :: "rat list \<Rightarrow> rat \<Rightarrow> bool list" where
  "call_doublets order_score t = map (\<lambda>s. t < s) order_score"

text \<open>
  Lines 343-346 and 379-388.  An elementwise operation of two arrays repeats an array of
  length one and refuses other lengths that differ.  \<open>~is_doublet & is_loner_doublet[:n]\<close>
  is a conjunction when \<open>is_doublet\<close> is boolean and a bitwise \<open>and\<close> with 0 or 1 when it is
  an integer array; \<open>np.where(...)[0]\<close> lists the positions where the result is true or not
  zero, and at those positions \<open>is_doublet\<close> is set to \<open>True\<close>, which is 1 in an integer
  array.
\<close>

definition np_elementwise :: "('a \<Rightarrow> 'b \<Rightarrow> 'c) \<Rightarrow> 'a list \<Rightarrow> 'b list \<Rightarrow> error + 'c list" where
  "np_elementwise f a b =
     (if length a = length b then Inr (map2 f a b)
      else if length b = 1 then Inr (map (\<lambda>x. f x (hd b)) a)
      else if length a = 1 then Inr (map (\<lambda>y. f (hd a) y) b)
      else Inl ValueError)"

fun new_doublets :: "np_index \<Rightarrow> bool list \<Rightarrow> error + bool list" where
  "new_doublets (BoolIndex m) called = np_elementwise (\<lambda>k c. k \<and> c) (map Not m) called"
| "new_doublets (IntIndex ks) called =
     np_elementwise (\<lambda>k c. k AND of_bool c \<noteq> 0) (map (\<lambda>k. NOT k) ks) called"
| "new_doublets (ObjectIndex n) called = Inl TypeError"

definition np_where :: "bool list \<Rightarrow> nat list" where
  "np_where bs = filter (\<lambda>i. bs ! i) [0..<length bs]"

fun set_true :: "np_index \<Rightarrow> nat list \<Rightarrow> error + np_index" where
  "set_true (BoolIndex m) idx =
     (if list_all (\<lambda>i. i < length m) idx
      then Inr (BoolIndex (fold (\<lambda>i ys. ys[i := True]) idx m)) else Inl IndexError)"
| "set_true (IntIndex ks) idx =
     (if list_all (\<lambda>i. i < length ks) idx
      then Inr (IntIndex (fold (\<lambda>i ys. ys[i := 1]) idx ks)) else Inl IndexError)"
| "set_true (ObjectIndex n) idx =
     (if list_all (\<lambda>i. i < n) idx then Inr (ObjectIndex n) else Inl IndexError)"

fun np_take :: "nat \<Rightarrow> np_index \<Rightarrow> np_index" where
  "np_take n (BoolIndex m) = BoolIndex (take n m)"
| "np_take n (IntIndex ks) = IntIndex (take n ks)"
| "np_take n (ObjectIndex l) = ObjectIndex (min n l)"

fun np_drop :: "nat \<Rightarrow> np_index \<Rightarrow> np_index" where
  "np_drop n (BoolIndex m) = BoolIndex (drop n m)"
| "np_drop n (IntIndex ks) = IntIndex (drop n ks)"
| "np_drop n (ObjectIndex l) = ObjectIndex (l - n)"

definition post_process ::
    "world \<Rightarrow> options \<Rightarrow> nat \<Rightarrow> np_index \<Rightarrow> dataset \<Rightarrow> int \<Rightarrow> event list \<Rightarrow> outputs result" where
  "post_process w opts num_cells known_doublets cd n tr =
     (let order_score = map snd (compute_predictions_soft w cd);
          loner_scores = take num_cells order_score
      in case select_threshold w (opt_expected_number_of_doublets opts) loner_scores tr of
           Inl x \<Rightarrow> Inl x
         | Inr (t, tr') \<Rightarrow>
             (let is_loner_doublet = call_doublets order_score t;
                  is_doublet = known_doublets
              in case new_doublets is_doublet (take num_cells is_loner_doublet) of
                   Inl e \<Rightarrow> Inl (e, tr')
                 | Inr new \<Rightarrow>
                     (case set_true is_doublet (np_where new) of
                        Inl e \<Rightarrow> Inl (e, tr')
                      | Inr is_doublet' \<Rightarrow>
                          (let order_pred = compute_predictions w cd
                           in Inr \<lparr>scores_npy = take num_cells order_score,
                                   scores_sim_npy = drop num_cells order_score,
                                   is_doublet_array = np_take num_cells is_doublet',
                                   is_doublet_sim_array = np_drop num_cells is_doublet',
                                   preds_npy = take num_cells order_pred,
                                   preds_sim_npy = drop num_cells order_pred,
                                   classifier_data = cd,
                                   num_doublets = n,
                                   threshold = t,
                                   trace = tr'\<rparr>))))"

subsection \<open>main\<close>

text \<open>
  The stages in the order of the script (lines 67-388).  A run returns the saved arrays with
  its trace, or the exception that ended it with the trace up to there.
\<close>

definition main :: "world \<Rightarrow> options \<Rightarrow> string list \<Rightarrow> outputs result" where
  "main w opts args =
     (if length args \<noteq> 2 then Inl (SystemExit, [])
      else
        (let model_json_file = args ! 0; data_file = args ! 1
         in case load_data w data_file of
              Inl x \<Rightarrow> Inl x
            | Inr (scvi_data, tr1) \<Rightarrow>
        (case split_known w opts scvi_data tr1 of
           Inl x \<Rightarrow> Inl x
         | Inr (known_doublets, known_doublet_data, singlet_scvi_data, tr2) \<Rightarrow>
        (case simulate_doublets w opts (length (gene_names scvi_data)) known_doublet_data
                singlet_scvi_data (train_vae opts tr2) of
           Inl x \<Rightarrow> Inl x
         | Inr (n, X_doublets, tr3) \<Rightarrow>
        (case merge_datasets scvi_data known_doublets X_doublets tr3 of
           Inl x \<Rightarrow> Inl x
         | Inr cd \<Rightarrow>
        (case train_classifier (json_load w model_json_file) tr3 of
           Inl x \<Rightarrow> Inl x
         | Inr tr4 \<Rightarrow>
             post_process w opts (length (Xmat scvi_data)) known_doublets cd n tr4))))))"

section \<open>Vocabulary of the properties\<close>

text \<open>
  What numpy documents of \<open>argpartition(a, k)\<close>: the result is a permutation of the
  indices of \<open>a\<close>; the element it puts at position \<open>k\<close> is where a sort would put it, no
  element before it is larger and no element after it is smaller.
\<close>

definition is_argpartition :: "rat list \<Rightarrow> nat \<Rightarrow> nat list \<Rightarrow> bool" where
  "is_argpartition a k idx =
     (sort idx = [0..<length a]
      \<and> list_all (\<lambda>i. a ! i \<le> a ! (idx ! k)) (take k idx)
      \<and> list_all (\<lambda>i. a ! (idx ! k) \<le> a ! i) (drop (Suc k) idx))"

text \<open>
  The truth values of the variable \<open>known_doublets\<close> of \<open>main\<close>: those of the column of the
  known-doublets file, or all \<open>False\<close> when no file is given.
\<close>

definition known_flags :: "world \<Rightarrow> options \<Rightarrow> dataset \<Rightarrow> bool list" where
  "known_flags w opts scvi_data =
     (case opt_known_doublets opts of
        None \<Rightarrow> replicate (length (Xmat scvi_data)) False
      | Some file \<Rightarrow> truth (pandas_values (read_csv w file)))"

text \<open>
  The known-doublets file is read as a column of booleans (every entry \<open>True\<close> or \<open>False\<close>),
  or there is no such file.
\<close>

definition boolean_column :: "world \<Rightarrow> options \<Rightarrow> bool" where
  "boolean_column w opts =
     (case opt_known_doublets opts of
        None \<Rightarrow> True
      | Some file \<Rightarrow> list_all (\<lambda>v. bool_of v \<noteq> None) (read_csv w file))"

text \<open>
  The number of doublets in the words of the specification: \<open>int(doublet_ratio * number of
  singlet cells)\<close>, less the number of known doublets when a file of them is supplied, the
  singlet cells being those the file does not flag.
\<close>

definition claimed_num_doublets :: "world \<Rightarrow> options \<Rightarrow> dataset \<Rightarrow> error + int" where
  "claimed_num_doublets w opts scvi_data =
     (case opt_known_doublets opts of
        None \<Rightarrow> int_of_product (opt_doublet_ratio opts) (length (Xmat scvi_data))
      | Some file \<Rightarrow>
          (case int_of_product (opt_doublet_ratio opts)
                  (length (filter (\<lambda>k. \<not> k) (known_flags w opts scvi_data))) of
             Inl e \<Rightarrow> Inl e
           | Inr n0 \<Rightarrow> Inr (n0 - int (length (filter (\<lambda>k. k) (known_flags w opts scvi_data))))))"

text \<open>The events of the trace that stand for the synthesis of a doublet.\<close>

fun is_simulation :: "event \<Rightarrow> bool" where
  "is_simulation (SimulateDoublet di) = True"
| "is_simulation e = False"

section \<open>A small run\<close>

text \<open>
  Three cells and three genes.  The generator pairs cell \<open>di\<close> with its successor; the
  reduction adds a row from left to right in float32; the sampler puts half of the trials on
  the first gene and the rest on the second; the classifier scores a cell by a third of its
  first count; \<open>argpartition\<close> sorts the indices by value, which is one of the partitions
  numpy may return.  The known-doublets file flags the first cell.
\<close>

definition example_data :: dataset where
  "example_data =
     \<lparr>Xmat = [[Fin 1, Fin 0, Fin 2], [Fin 0, Fin 3, Fin 1], [Fin 2, Fin 2, Fin 0]],
      labels = [0, 0, 0], batch_indices = [0, 0, 0],
      gene_names = [''g1'', ''g2'', ''g3''], n_labels = 1\<rparr>"

definition first_count :: "fl list \<Rightarrow> rat" where
  "first_count r = (case r of Fin x # rest \<Rightarrow> x | other \<Rightarrow> 0)"

definition example_world :: world where
  "example_world =
     \<lparr>LoomDataset = (\<lambda>f. example_data), AnnDataset = (\<lambda>f. example_data),
      json_load = (\<lambda>f. [''cl_hidden'' \<mapsto> 64, ''cl_layers'' \<mapsto> 1, ''dropout_rate'' \<mapsto> 1 / 10]),
      read_csv = (\<lambda>f. [CBool True, CBool False, CBool False]),
      random_choice = (\<lambda>di. (di, Suc di)),
      np_sum = (\<lambda>r. foldl (f_add float32) (Fin 0) r),
      multinomial_rvs =
        (\<lambda>di n p. if n < 0 \<or> length p < 2 then Inl ValueError
                   else Inr (nat n div 2 # (nat n - nat n div 2) # replicate (length p - 2) 0)),
      argpartition = (\<lambda>a k. sort_key (\<lambda>i. a ! i) [0..<length a]),
      compute_predictions_soft =
        (\<lambda>d. map (\<lambda>r. (1 - first_count r / 3, first_count r / 3)) (Xmat d)),
      compute_predictions = (\<lambda>d. map (\<lambda>r. if 1 / 2 < first_count r / 3 then 1 else 0) (Xmat d))\<rparr>"

definition example_options :: options where
  "example_options =
     \<lparr>opt_doublet_depth = Fin 1, opt_doublet_ratio = Fin 1, opt_seed = None,
      opt_known_doublets = None, opt_doublet_type = Multinomial,
      opt_expected_number_of_doublets = None\<rparr>"

definition known_run_options :: options where
  "known_run_options =
     example_options\<lparr>opt_known_doublets := Some ''known.tsv'', opt_doublet_ratio := Fin 2\<rparr>"

definition example_args :: "string list" where
  "example_args = [''model.json'', ''cells.loom'']"

text \<open>
  What the run with the known-doublets file of \<open>example_world\<close> returns: cell 0 is a known
  doublet, cell 2 is called on its score, and three doublets are simulated from cells 1 and 2.
\<close>

definition example_out :: outputs where
  "example_out =
     \<lparr>scores_npy = [1 / 3, 0, 2 / 3], scores_sim_npy = [2 / 3, 2 / 3, 2 / 3],
      is_doublet_array = BoolIndex [True, False, True], is_doublet_sim_array = BoolIndex [],
      preds_npy = [0, 0, 1], preds_sim_npy = [1, 1, 1],
      classifier_data =
        \<lparr>Xmat = [[Fin 1, Fin 0, Fin 2], [Fin 0, Fin 3, Fin 1], [Fin 2, Fin 2, Fin 0],
                 [Fin 2, Fin 2, Fin 0], [Fin 2, Fin 2, Fin 0], [Fin 2, Fin 2, Fin 0]],
         labels = [1, 0, 0, 1, 1, 1], batch_indices = [0, 0, 0, 0, 0, 0],
         gene_names = [''g1'', ''g2'', ''g3''], n_labels = 2\<rparr>,
      num_doublets = 3, threshold = 1 / 2,
      trace = [Print ''Removing known doublets for in silico doublet generation'',
               Print ''Make sure known doublets are in the same order as your data'',
               TrainVAE, SimulateDoublet 0, SimulateDoublet 1, SimulateDoublet 2,
               TrainClassifier]\<rparr>"

section \<open>Lemmas\<close>

subsection \<open>Indexing\<close>

lemma getitem_in_range:
  assumes "- int (length xs) \<le> i" "i < int (length xs)"
  shows "getitem xs i = Inr (xs ! nat (i mod int (length xs)))"
proof (cases "0 \<le> i")
  case True
  with assms show ?thesis by (simp add: getitem_def)
next
  case False
  with assms have "i mod int (length xs) = int (length xs) + i"
    by (smt (verit) mod_add_self1 mod_pos_pos_trivial)
  with False assms show ?thesis by (simp add: getitem_def)
qed

lemma wrapped_index_less:
  assumes "- int (length xs) \<le> i" "i < int (length xs)"
  shows "nat (i mod int (length xs)) < length xs"
proof -
  have "0 < int (length xs)" using assms by linarith
  then have "i mod int (length xs) < int (length xs)" "0 \<le> i mod int (length xs)"
    by simp_all
  then show ?thesis by linarith
qed

lemma is_matrix_nth: "is_matrix X G \<Longrightarrow> k < length X \<Longrightarrow> length (X ! k) = G"
  by (simp add: is_matrix_def list_all_length)

subsection \<open>Partition and order statistics\<close>

lemma sorted_last_Max:
  assumes "sorted xs" "xs \<noteq> []"
  shows "last xs = Max (set (xs :: rat list))"
proof -
  have le: "x \<le> last xs" if "x \<in> set xs" for x
  proof -
    from that obtain i where i: "i < length xs" "x = xs ! i" by (auto simp: in_set_conv_nth)
    then have "xs ! i \<le> xs ! (length xs - 1)"
      using assms(1) by (intro sorted_nth_mono) auto
    then show ?thesis using i assms(2) by (simp add: last_conv_nth)
  qed
  have "Max (set xs) = last xs"
    by (rule Max_eqI) (use le assms(2) in auto)
  then show ?thesis by simp
qed

lemma partition_sort_append:
  assumes "\<forall>x\<in>set xs. \<forall>y\<in>set ys. x \<le> (y::rat)"
  shows "sort (xs @ ys) = sort xs @ sort ys"
proof (rule properties_for_sort)
  show "mset (sort xs @ sort ys) = mset (xs @ ys)" by simp
  show "sorted (sort xs @ sort ys)" using assms by (simp add: sorted_append)
qed

lemma argpartition_values:
  assumes "sort idx = [0..<length a]"
  shows "mset (map (\<lambda>i. a ! i) idx) = mset a"
proof -
  have "mset idx = mset [0..<length a]" using assms by (metis mset_sort)
  then have "image_mset (\<lambda>i. a ! i) (mset idx) = image_mset (\<lambda>i. a ! i) (mset [0..<length a])"
    by simp
  then have "mset (map (\<lambda>i. a ! i) idx) = mset (map (\<lambda>i. a ! i) [0..<length a])"
    by simp
  then show ?thesis by (simp add: map_nth)
qed

lemma kth_smallest:
  assumes part: "is_argpartition a k idx" and k: "0 < k" "k < length a"
  shows "take k (sort a) = sort (map (\<lambda>i. a ! i) (take k idx))"
    and "Max (set (map (\<lambda>i. a ! i) (take k idx))) = sort a ! (k - 1)"
    and "length idx = length a"
    and "list_all (\<lambda>i. i < length a) idx"
proof -
  let ?L = "map (\<lambda>i. a ! i) idx"
  let ?L1 = "take k ?L" and ?L2 = "drop k ?L"
  have s: "sort idx = [0..<length a]" using part by (simp add: is_argpartition_def)
  have len: "length idx = length a"
    using s by (metis length_sort length_upt diff_zero)
  show "length idx = length a" by (rule len)
  have "set idx = set [0..<length a]" using s by (metis set_sort)
  then show "list_all (\<lambda>i. i < length a) idx" by (auto simp: list_all_iff)
  have v: "?L2 = a ! (idx ! k) # map (\<lambda>i. a ! i) (drop (Suc k) idx)"
    using k len by (simp add: drop_map Cons_nth_drop_Suc [symmetric])
  have lo: "\<forall>x\<in>set ?L1. x \<le> a ! (idx ! k)"
    using part by (auto simp: is_argpartition_def list_all_iff take_map)
  have hi: "\<forall>y\<in>set ?L2. a ! (idx ! k) \<le> y"
    using part by (auto simp: v is_argpartition_def list_all_iff)
  have "\<forall>x\<in>set ?L1. \<forall>y\<in>set ?L2. x \<le> y" using lo hi by force
  then have "sort (?L1 @ ?L2) = sort ?L1 @ sort ?L2" by (rule partition_sort_append)
  moreover have "sort (?L1 @ ?L2) = sort a"
    using argpartition_values [OF s] by (simp add: properties_for_sort)
  ultimately have sa: "sort a = sort ?L1 @ sort ?L2" by simp
  have l1: "length (sort ?L1) = k" using k len by simp
  show t: "take k (sort a) = sort (map (\<lambda>i. a ! i) (take k idx))"
    using l1 by (simp add: sa take_map)
  have ne: "sort ?L1 \<noteq> []"
  proof
    assume "sort ?L1 = []"
    then have "length (sort ?L1) = 0" by (simp only: list.size)
    with l1 k show False by linarith
  qed
  have "sort a ! (k - 1) = sort ?L1 ! (k - 1)" using l1 k by (simp add: sa nth_append)
  also have "\<dots> = last (sort ?L1)" using ne l1 by (simp add: last_conv_nth)
  also have "\<dots> = Max (set (sort ?L1))" using ne by (simp add: sorted_last_Max)
  finally show "Max (set (map (\<lambda>i. a ! i) (take k idx))) = sort a ! (k - 1)"
    by (simp add: take_map)
qed

subsection \<open>The known-doublets column\<close>

lemma index_length_pandas [simp]: "index_length (pandas_values vs) = length vs"
  by (simp add: pandas_values_def)

lemma length_truth [simp]: "length (truth idx) = index_length idx"
  by (cases idx) simp_all

lemma length_mask_select:
  "length xs = length m \<Longrightarrow> length (mask_select xs m) = length (filter (\<lambda>k. k) m)"
  unfolding mask_select_def by (induction xs m rule: list_induct2) auto

lemma filter_map_Not: "length (filter (\<lambda>k. k) (map Not m)) = length (filter (\<lambda>k. \<not> k) m)"
  by (induction m) auto

lemma take_rows_length:
  assumes "take_rows xs idx = Inr rows"
  shows "length rows = (case idx of BoolIndex m \<Rightarrow> length (filter (\<lambda>k. k) m)
                         | IntIndex ks \<Rightarrow> length ks | ObjectIndex n \<Rightarrow> 0)"
  using assms by (cases idx) (auto simp: length_mask_select split: if_splits)

lemma not_and_bit: "(NOT k AND of_bool c \<noteq> (0::int)) \<longleftrightarrow> even k \<and> c"
proof (cases c)
  case True
  have "(- k - 1) mod 2 = 1 \<longleftrightarrow> even k" by presburger
  then show ?thesis using True by (simp add: and_one_eq not_int_def)
next
  case False
  then show ?thesis by simp
qed

subsection \<open>The stages of a run that returns\<close>

lemma main_Inr_stages:
  assumes "main w opts args = Inr out"
  obtains scvi_data tr1 known_doublets kdd singlet tr2 n Xd tr3 cd tr4 where
    "length args = 2"
    "load_data w (args ! 1) = Inr (scvi_data, tr1)"
    "split_known w opts scvi_data tr1 = Inr (known_doublets, kdd, singlet, tr2)"
    "simulate_doublets w opts (length (gene_names scvi_data)) kdd singlet (train_vae opts tr2)
       = Inr (n, Xd, tr3)"
    "merge_datasets scvi_data known_doublets Xd tr3 = Inr cd"
    "train_classifier (json_load w (args ! 0)) tr3 = Inr tr4"
    "post_process w opts (length (Xmat scvi_data)) known_doublets cd n tr4 = Inr out"
  using assms unfolding main_def
  by (auto simp: Let_def split: if_splits sum.splits prod.splits)

lemma load_data_Inr:
  assumes "load_data w f = Inr (scvi_data, tr1)"
  shows "tr1 = []"
  using assms unfolding load_data_def read_data_def
  by (auto simp: Let_def split: if_splits)

lemma split_known_Inr:
  assumes "split_known w opts scvi_data tr = Inr (known_doublets, kdd, singlet, tr')"
  shows "index_length known_doublets = length (Xmat scvi_data)"
    and "known_doublets = (case opt_known_doublets opts of
                             None \<Rightarrow> BoolIndex (replicate (length (Xmat scvi_data)) False)
                           | Some file \<Rightarrow> pandas_values (read_csv w file))"
    and "truth known_doublets = known_flags w opts scvi_data"
    and "kdd = None \<longleftrightarrow> opt_known_doublets opts = None"
    and "filter is_simulation tr' = filter is_simulation tr"
    and "\<forall>n. known_doublets \<noteq> ObjectIndex n"
  using assms unfolding split_known_def known_flags_def
  by (auto simp: Let_def split: option.splits if_splits sum.splits)

lemma simulate_loop_Inr:
  "simulate_loop w kind G X kw dis Xd tr = Inr (Xd', tr')
     \<Longrightarrow> length Xd' = length Xd + length dis \<and> tr' = tr @ map SimulateDoublet dis"
proof (induction dis arbitrary: Xd tr)
  case Nil
  then show ?case by simp
next
  case (Cons di dis)
  from Cons.prems obtain r where
    "simulate_loop w kind G X kw dis (Xd @ [r]) (tr @ [SimulateDoublet di]) = Inr (Xd', tr')"
    by (auto split: sum.splits)
  from Cons.IH [OF this] show ?case by simp
qed

lemma simulate_doublets_Inr:
  assumes "simulate_doublets w opts G kdd singlet tr = Inr (n, Xd, tr')"
  shows "0 \<le> n"
    and "\<exists>n0. int_of_product (opt_doublet_ratio opts) (length (Xmat singlet)) = Inr n0
              \<and> n = n0 - (case kdd of None \<Rightarrow> 0 | Some kd \<Rightarrow> int (length (Xmat kd)))"
    and "length Xd = nat n"
    and "tr' = tr @ map SimulateDoublet [0..<nat n]"
  using assms unfolding simulate_doublets_def
  by (auto simp: Let_def split: option.splits if_splits sum.splits prod.splits
      dest!: simulate_loop_Inr)

lemma arrange_categories_card:
  "arrange_categories cs = map (\<lambda>c. card {u \<in> set cs. u < c}) cs"
proof -
  have "length (filter (\<lambda>u. u < c) (remdups cs)) = card {u \<in> set cs. u < c}" for c
  proof -
    define F where "F = filter (\<lambda>u. u < c) (remdups cs)"
    have "distinct F" by (simp add: F_def)
    then have "length F = card (set F)" by (simp add: distinct_card)
    moreover have "set F = {u \<in> set cs. u < c}" by (auto simp: F_def)
    ultimately have "length F = card {u \<in> set cs. u < c}" by (simp only:)
    then show ?thesis by (simp only: F_def)
  qed
  then show ?thesis by (simp add: arrange_categories_def)
qed

lemma arrange_categories_ones: "arrange_categories (replicate n (Suc 0)) = replicate n 0"
  by (auto simp: arrange_categories_card map_replicate_const intro!: replicate_eqI)

lemma arrange_categories_binary:
  assumes "set cs \<subseteq> {0, 1}" "length (remdups (arrange_categories cs)) = 2"
  shows "arrange_categories cs = cs"
proof (cases "0 \<in> set cs")
  case True
  have "card {u \<in> set cs. u < c} = c" if "c \<in> set cs" for c
  proof -
    from that assms(1) have "c = 0 \<or> c = 1" by auto
    then show ?thesis
    proof
      assume "c = 0" then show ?thesis by simp
    next
      assume c: "c = 1"
      have "{u \<in> set cs. u < 1} = {0}" using True by auto
      then show ?thesis using c by simp
    qed
  qed
  then show ?thesis by (simp add: arrange_categories_card map_idI)
next
  case False
  have "card {u \<in> set cs. u < c} = 0" if "c \<in> set cs" for c
  proof -
    have "{u \<in> set cs. u < c} = {}" using that assms(1) False
      by (auto simp: less_Suc_eq dest!: subsetD) 
    then show ?thesis by simp
  qed
  then have "set (arrange_categories cs) \<subseteq> {0}"
    by (auto simp: arrange_categories_card)
  then have "card (set (arrange_categories cs)) \<le> 1"
    by (metis card_mono finite.emptyI finite.insertI card.empty card.insert equals0D One_nat_def)
  then have "length (remdups (arrange_categories cs)) \<le> 1"
    by (simp add: length_remdups_card_conv)
  with assms(2) show ?thesis by simp
qed

lemma merge_datasets_rows:
  assumes "merge_datasets scvi_data known_doublets Xd tr = Inr cd"
  shows "Xmat cd = Xmat scvi_data @ Xd"
  using assms unfolding merge_datasets_def
  by (auto simp: Let_def concat_datasets_def GeneExpressionDataset_def
      make_gene_expression_dataset_def split: if_splits sum.splits)

lemma fold_set_value:
  "length (fold (\<lambda>i ys. ys[i := v]) idx xs) = length xs
   \<and> (\<forall>i<length xs. fold (\<lambda>i ys. ys[i := v]) idx xs ! i = (if i \<in> set idx then v else xs ! i))"
proof (induction idx arbitrary: xs)
  case Nil
  show ?case by simp
next
  case (Cons a idx)
  have "xs[a := v] ! i = (if i = a then v else xs ! i)" if "i < length xs" for i
    using that by (cases "i = a") auto
  then show ?case using Cons [of "xs[a := v]"] by auto
qed

lemma set_true_Inr:
  assumes "set_true known idx = Inr arr" and "\<forall>n. known \<noteq> ObjectIndex n"
  shows "index_length arr = index_length known"
    and "\<forall>i<index_length known. truth arr ! i = (truth known ! i \<or> i \<in> set idx)"
proof -
  show "index_length arr = index_length known"
    using assms fold_set_value [of True idx] fold_set_value [of "1::int" idx]
    by (cases known) (auto split: if_splits)
  show "\<forall>i<index_length known. truth arr ! i = (truth known ! i \<or> i \<in> set idx)"
  proof (cases known)
    case (BoolIndex m)
    then show ?thesis using assms(1) fold_set_value [of True idx m]
      by (auto split: if_splits)
  next
    case (IntIndex ks)
    then show ?thesis using assms(1) fold_set_value [of "1::int" idx ks]
      by (auto split: if_splits)
  next
    case (ObjectIndex n)
    then show ?thesis using assms(2) by simp
  qed
qed

lemma set_np_where: "set (np_where bs) = {i. i < length bs \<and> bs ! i}"
  by (auto simp: np_where_def)

lemma new_doublets_Inr:
  assumes "new_doublets known called = Inr new" and "length called = index_length known"
  shows "length new = index_length known"
    and "\<forall>i<index_length known. (truth known ! i \<or> new ! i) = (truth known ! i \<or> called ! i)"
proof -
  show "length new = index_length known"
    using assms by (cases known) (auto simp: np_elementwise_def)
  show "\<forall>i<index_length known. (truth known ! i \<or> new ! i) = (truth known ! i \<or> called ! i)"
  proof (cases known)
    case (BoolIndex m)
    then show ?thesis using assms by (auto simp: np_elementwise_def)
  next
    case (IntIndex ks)
    then have "new = map2 (\<lambda>k c. k AND of_bool c \<noteq> 0) (map (\<lambda>k. NOT k) ks) called"
      using assms by (simp add: np_elementwise_def)
    then show ?thesis using assms(2) IntIndex by (auto simp: not_and_bit)
  next
    case (ObjectIndex n)
    then show ?thesis using assms by simp
  qed
qed

lemma truth_np_take [simp]: "truth (np_take n a) = take n (truth a)"
  by (cases a) (simp_all add: take_map min_def)

lemma truth_np_drop [simp]: "truth (np_drop n a) = drop n (truth a)"
  by (cases a) (simp_all add: drop_map)

lemma post_process_Inr:
  assumes "post_process w opts num_cells known cd n tr = Inr out"
  obtains t tr' new flags where
    "select_threshold w (opt_expected_number_of_doublets opts)
       (take num_cells (map snd (compute_predictions_soft w cd))) tr = Inr (t, tr')"
    "new_doublets known
       (take num_cells (call_doublets (map snd (compute_predictions_soft w cd)) t)) = Inr new"
    "set_true known (np_where new) = Inr flags"
    "out = \<lparr>scores_npy = take num_cells (map snd (compute_predictions_soft w cd)),
            scores_sim_npy = drop num_cells (map snd (compute_predictions_soft w cd)),
            is_doublet_array = np_take num_cells flags,
            is_doublet_sim_array = np_drop num_cells flags,
            preds_npy = take num_cells (compute_predictions w cd),
            preds_sim_npy = drop num_cells (compute_predictions w cd),
            classifier_data = cd, num_doublets = n, threshold = t, trace = tr'\<rparr>"
  using assms unfolding post_process_def
  by (auto simp: Let_def split: sum.splits prod.splits)

lemma main_Inr_facts:
  assumes run: "main w opts args = Inr out"
    and load: "load_data w (args ! 1) = Inr (scvi_data, tr1)"
  shows "length (known_flags w opts scvi_data) = length (Xmat scvi_data)"
    and "0 \<le> num_doublets out"
    and "length (Xmat (classifier_data out)) = length (Xmat scvi_data) + nat (num_doublets out)"
    and "scores_npy out
       = take (length (Xmat scvi_data)) (map snd (compute_predictions_soft w (classifier_data out)))"
    and "scores_sim_npy out
       = drop (length (Xmat scvi_data)) (map snd (compute_predictions_soft w (classifier_data out)))"
    and "preds_npy out = take (length (Xmat scvi_data)) (compute_predictions w (classifier_data out))"
    and "preds_sim_npy out = drop (length (Xmat scvi_data)) (compute_predictions w (classifier_data out))"
    and "length (is_doublet_npy out) = length (Xmat scvi_data)"
    and "is_doublet_sim_npy out = []"
    and "\<forall>i<length (Xmat scvi_data). known_flags w opts scvi_data ! i \<longrightarrow> is_doublet_npy out ! i"
    and "length (compute_predictions_soft w (classifier_data out)) = length (Xmat (classifier_data out))
       \<Longrightarrow> \<forall>i<length (Xmat scvi_data).
             is_doublet_npy out ! i
               = (known_flags w opts scvi_data ! i \<or> threshold out < scores_npy out ! i)"
proof -
  from run obtain sd t1 known kdd singlet tr2 n Xd tr3 cd tr4 where st:
    "load_data w (args ! 1) = Inr (sd, t1)"
    "split_known w opts sd t1 = Inr (known, kdd, singlet, tr2)"
    "simulate_doublets w opts (length (gene_names sd)) kdd singlet (train_vae opts tr2)
       = Inr (n, Xd, tr3)"
    "merge_datasets sd known Xd tr3 = Inr cd"
    "post_process w opts (length (Xmat sd)) known cd n tr4 = Inr out"
    by (rule main_Inr_stages)
  from st(1) load have sd: "sd = scvi_data" by simp
  let ?N = "length (Xmat scvi_data)"
  let ?score = "map snd (compute_predictions_soft w cd)"
  from st(5) obtain t tr' new flags where pp:
    "new_doublets known (take ?N (call_doublets ?score t)) = Inr new"
    "set_true known (np_where new) = Inr flags"
    "out = \<lparr>scores_npy = take ?N ?score, scores_sim_npy = drop ?N ?score,
            is_doublet_array = np_take ?N flags, is_doublet_sim_array = np_drop ?N flags,
            preds_npy = take ?N (compute_predictions w cd),
            preds_sim_npy = drop ?N (compute_predictions w cd),
            classifier_data = cd, num_doublets = n, threshold = t, trace = tr'\<rparr>"
    unfolding sd by (rule post_process_Inr)
  note sk = split_known_Inr [OF st(2) [unfolded sd]]
  have kn: "index_length known = ?N" by (rule sk(1))
  have kf: "known_flags w opts scvi_data = truth known" using sk(3) by simp
  have fl: "index_length flags = ?N"
    and fi: "\<forall>i<?N. truth flags ! i = (truth known ! i \<or> i \<in> set (np_where new))"
    using set_true_Inr [OF pp(2) sk(6)] kn by simp_all
  have tf: "length (truth flags) = ?N" using fl by simp
  have rows: "length (Xmat cd) = ?N + nat n"
    using merge_datasets_rows [OF st(4)] simulate_doublets_Inr(3) [OF st(3)] sd by simp
  have called: "\<forall>i<?N. truth flags ! i = (truth known ! i \<or> t < take ?N ?score ! i)"
    if c: "length (compute_predictions_soft w cd) = length (Xmat cd)"
  proof -
    have len: "length (take ?N (call_doublets ?score t)) = index_length known"
      using c rows kn by (simp add: call_doublets_def)
    note nd = new_doublets_Inr [OF pp(1) len]
    have "(truth known ! i \<or> i \<in> set (np_where new))
            = (truth known ! i \<or> t < take ?N ?score ! i)" if "i < ?N" for i
    proof -
      have "(truth known ! i \<or> new ! i)
              = (truth known ! i \<or> take ?N (call_doublets ?score t) ! i)"
        using nd(2) that kn by simp
      moreover have "take ?N (call_doublets ?score t) ! i = (t < take ?N ?score ! i)"
        using that c rows by (simp add: call_doublets_def)
      moreover have "i \<in> set (np_where new) \<longleftrightarrow> new ! i"
        using that nd(1) kn by (simp add: set_np_where)
      ultimately show ?thesis by simp
    qed
    then show ?thesis using fi by simp
  qed
  show "length (known_flags w opts scvi_data) = ?N" using kn kf by simp
  show "0 \<le> num_doublets out" using simulate_doublets_Inr(1) [OF st(3)] pp(3) by simp
  show "length (Xmat (classifier_data out)) = ?N + nat (num_doublets out)"
    using rows pp(3) by simp
  show "scores_npy out = take ?N (map snd (compute_predictions_soft w (classifier_data out)))"
    using pp(3) by simp
  show "scores_sim_npy out = drop ?N (map snd (compute_predictions_soft w (classifier_data out)))"
    using pp(3) by simp
  show "preds_npy out = take ?N (compute_predictions w (classifier_data out))"
    using pp(3) by simp
  show "preds_sim_npy out = drop ?N (compute_predictions w (classifier_data out))"
    using pp(3) by simp
  show "length (is_doublet_npy out) = ?N" using pp(3) tf by (simp add: is_doublet_npy_def)
  show "is_doublet_sim_npy out = []" using pp(3) tf by (simp add: is_doublet_sim_npy_def)
  show "\<forall>i<?N. known_flags w opts scvi_data ! i \<longrightarrow> is_doublet_npy out ! i"
    using fi tf pp(3) kf by (simp add: is_doublet_npy_def)
  show "\<forall>i<?N. is_doublet_npy out ! i
                 = (known_flags w opts scvi_data ! i \<or> threshold out < scores_npy out ! i)"
    if "length (compute_predictions_soft w (classifier_data out))
          = length (Xmat (classifier_data out))"
    using called that pp(3) tf kf by (simp add: is_doublet_npy_def)
qed

lemma select_threshold_trace:
  assumes "select_threshold w e scores tr = Inr (t, tr')"
  shows "filter is_simulation tr' = filter is_simulation tr"
  using assms unfolding select_threshold_def
  by (auto simp: Let_def split: option.splits if_splits list.splits)

lemma train_vae_no_simulation: "filter is_simulation (train_vae opts tr) = filter is_simulation tr"
  by (auto simp: train_vae_def split: option.splits)

lemma filter_simulation_map: "filter is_simulation (map SimulateDoublet ds) = map SimulateDoublet ds"
  by (induction ds) auto

subsection \<open>The threshold\<close>

lemma select_threshold_kth:
  assumes e: "0 < e" "e < int (length scores)"
    and part: "is_argpartition scores (nat (int (length scores) - e))
                 (argpartition w scores (nat (int (length scores) - e)))"
  shows "select_threshold w None scores tr = Inr (1 / 2, tr)
       \<and> select_threshold w (Some e) scores tr
           = Inr (sort scores ! (nat (int (length scores) - e) - 1),
                  if 1 / 2 < rat_of_int e / rat_of_nat (length scores)
                  then tr @ [Print expected_warning] else tr)
       \<and> sort scores ! (nat (int (length scores) - e) - 1)
           = Max (set (take (nat (int (length scores) - e)) (sort scores)))
       \<and> length (call_doublets order_score t) = length order_score
       \<and> (\<forall>c<length order_score. call_doublets order_score t ! c \<longleftrightarrow> t < order_score ! c)"
proof -
  define k where "k = nat (int (length scores) - e)"
  define idx where "idx = argpartition w scores k"
  have k: "0 < k" "k < length scores" using e by (simp_all add: k_def)
  have p: "is_argpartition scores k idx" using part by (simp add: k_def idx_def)
  note ks = kth_smallest [OF p k]
  have inr: "list_all (\<lambda>i. i < length scores) (take k idx)"
    using ks(4) by (auto simp: list_all_iff dest: in_set_takeD)
  have ne: "map (\<lambda>i. scores ! i) (take k idx) \<noteq> []"
    using k ks(3) by auto
  then obtain v vs where vs: "map (\<lambda>i. scores ! i) (take k idx) = v # vs"
    by (cases "map (\<lambda>i. scores ! i) (take k idx)") auto
  have "fold max vs v = Max (set (v # vs))" by (rule Max.set_eq_fold [symmetric])
  then have mx: "fold max vs v = sort scores ! (k - 1)" using ks(2) vs by simp
  have kk: "\<not> int (length scores) \<le> int (length scores) - e" "0 < int (length scores) - e"
    "length scores \<noteq> 0"
    using e by auto
  have sel: "select_threshold w (Some e) scores tr
           = Inr (sort scores ! (k - 1),
                  if 1 / 2 < rat_of_int e / rat_of_nat (length scores)
                  then tr @ [Print expected_warning] else tr)"
    using kk inr vs mx
    by (simp add: select_threshold_def Let_def k_def [symmetric] idx_def [symmetric])
  have "Max (set (take k (sort scores))) = Max (set (map (\<lambda>i. scores ! i) (take k idx)))"
    by (simp add: ks(1))
  then have mx2: "sort scores ! (k - 1) = Max (set (take k (sort scores)))"
    using ks(2) by simp
  show ?thesis
    using sel mx2 by (simp add: select_threshold_def call_doublets_def k_def)
qed

lemma main_threshold:
  assumes run: "main w opts args = Inr out"
    and load: "load_data w (args ! 1) = Inr (scvi_data, tr1)"
  shows "opt_expected_number_of_doublets opts = None \<Longrightarrow> threshold out = 1 / 2"
    and "opt_expected_number_of_doublets opts = Some e \<Longrightarrow> 0 < e
         \<Longrightarrow> e < int (length (scores_npy out))
         \<Longrightarrow> is_argpartition (scores_npy out) (nat (int (length (scores_npy out)) - e))
               (argpartition w (scores_npy out) (nat (int (length (scores_npy out)) - e)))
         \<Longrightarrow> threshold out = sort (scores_npy out) ! (nat (int (length (scores_npy out)) - e) - 1)"
    and "opt_expected_number_of_doublets opts = Some e \<Longrightarrow> length (scores_npy out) \<noteq> 0
         \<Longrightarrow> 0 < e \<and> e < int (length (scores_npy out))"
proof -
  from run obtain sd t1 known kdd singlet tr2 n Xd tr3 cd tr4 where st:
    "load_data w (args ! 1) = Inr (sd, t1)"
    "post_process w opts (length (Xmat sd)) known cd n tr4 = Inr out"
    by (rule main_Inr_stages)
  from st(2) obtain t tr' where pp:
    "select_threshold w (opt_expected_number_of_doublets opts)
       (take (length (Xmat sd)) (map snd (compute_predictions_soft w cd))) tr4 = Inr (t, tr')"
    "scores_npy out = take (length (Xmat sd)) (map snd (compute_predictions_soft w cd))"
    "threshold out = t"
    by (rule post_process_Inr) simp
  have sel: "select_threshold w (opt_expected_number_of_doublets opts) (scores_npy out) tr4
               = Inr (threshold out, tr')"
    using pp by simp
  show "threshold out = 1 / 2" if "opt_expected_number_of_doublets opts = None"
    using sel that by (simp add: select_threshold_def)
  show "threshold out = sort (scores_npy out) ! (nat (int (length (scores_npy out)) - e) - 1)"
    if "opt_expected_number_of_doublets opts = Some e" "0 < e" "e < int (length (scores_npy out))"
      "is_argpartition (scores_npy out) (nat (int (length (scores_npy out)) - e))
               (argpartition w (scores_npy out) (nat (int (length (scores_npy out)) - e)))"
    using select_threshold_kth [OF that(2,3,4), of tr4] sel that(1) by simp
  show "0 < e \<and> e < int (length (scores_npy out))"
    if "opt_expected_number_of_doublets opts = Some e" "length (scores_npy out) \<noteq> 0"
    using sel that by (auto simp: select_threshold_def Let_def split: if_splits)
qed

subsection \<open>The labels of the classifier's dataset\<close>

lemma merge_datasets_Inr:
  assumes "merge_datasets scvi_data (BoolIndex m) Xd tr = Inr cd"
    and "labels scvi_data = replicate (length (Xmat scvi_data)) 0"
  shows "labels cd = map (\<lambda>k. if k then 1 else 0) m @ replicate (length Xd) 1"
    and "length (remdups (labels cd)) = 2"
    and "length m = length (Xmat scvi_data)"
proof -
  let ?L = "map (\<lambda>k. if k then 1 else 0) m @ replicate (length Xd) (1::nat)"
  from assms have len: "length m = length (Xmat scvi_data)"
    unfolding merge_datasets_def by (auto simp: Let_def split: if_splits sum.splits)
  have m: "map2 (\<lambda>l k. if k then Suc l else l) (replicate (length (Xmat scvi_data)) 0) m
             = map (\<lambda>k. if k then 1 else 0) m"
    using len by (auto intro!: nth_equalityI)
  have cd: "cd = concat_datasets
      (scvi_data\<lparr>n_labels := 2, labels := map (\<lambda>k. if k then 1 else 0) m\<rparr>)
      ((make_gene_expression_dataset Xd (gene_names scvi_data))
         \<lparr>labels := map Suc (labels (make_gene_expression_dataset Xd (gene_names scvi_data))),
          n_labels := 2\<rparr>)"
    and two: "length (remdups (labels cd)) = 2"
    using assms(1) len unfolding merge_datasets_def
    by (auto simp: Let_def assms(2) m split: if_splits)
  have dl: "map Suc (labels (make_gene_expression_dataset Xd (gene_names scvi_data)))
              = replicate (length Xd) 1"
    by (simp add: make_gene_expression_dataset_def GeneExpressionDataset_def Let_def
        arrange_categories_ones)
  have lab: "labels cd = arrange_categories ?L"
    by (simp add: cd concat_datasets_def GeneExpressionDataset_def dl)
  have "set ?L \<subseteq> {0, 1}" by auto
  then have "arrange_categories ?L = ?L"
    using two lab by (intro arrange_categories_binary) simp_all
  then show "labels cd = ?L" using lab by simp
  show "length (remdups (labels cd)) = 2" by (rule two)
  show "length m = length (Xmat scvi_data)" by (rule len)
qed

lemma boolean_column_index:
  assumes "split_known w opts scvi_data tr = Inr (known, kdd, singlet, tr')"
    and "boolean_column w opts"
  shows "known = BoolIndex (known_flags w opts scvi_data)"
  using assms unfolding split_known_def known_flags_def boolean_column_def pandas_values_def
  by (auto simp: Let_def split: option.splits if_splits sum.splits)

lemma main_Inr_labels:
  assumes run: "main w opts args = Inr out"
    and load: "load_data w (args ! 1) = Inr (scvi_data, tr1)"
    and bc: "boolean_column w opts"
    and zero: "labels scvi_data = replicate (length (Xmat scvi_data)) 0"
  shows "labels (classifier_data out)
           = map (\<lambda>k. if k then 1 else 0) (known_flags w opts scvi_data)
             @ replicate (nat (num_doublets out)) 1"
    and "length (remdups (labels (classifier_data out))) = 2"
    and "length (known_flags w opts scvi_data) = length (Xmat scvi_data)"
proof -
  from run obtain sd t1 known kdd singlet tr2 n Xd tr3 cd tr4 where st:
    "load_data w (args ! 1) = Inr (sd, t1)"
    "split_known w opts sd t1 = Inr (known, kdd, singlet, tr2)"
    "simulate_doublets w opts (length (gene_names sd)) kdd singlet (train_vae opts tr2)
       = Inr (n, Xd, tr3)"
    "merge_datasets sd known Xd tr3 = Inr cd"
    "post_process w opts (length (Xmat sd)) known cd n tr4 = Inr out"
    by (rule main_Inr_stages)
  from st(1) load have sd: "sd = scvi_data" by simp
  have kf: "known = BoolIndex (known_flags w opts scvi_data)"
    using boolean_column_index [OF st(2) [unfolded sd] bc] .
  from st(5) have out: "classifier_data out = cd" "num_doublets out = n"
    by (rule post_process_Inr, simp)+
  have xd: "length Xd = nat n" using simulate_doublets_Inr(3) [OF st(3)] .
  note m = merge_datasets_Inr [OF st(4) [unfolded sd kf] zero]
  show "labels (classifier_data out)
           = map (\<lambda>k. if k then 1 else 0) (known_flags w opts scvi_data)
             @ replicate (nat (num_doublets out)) 1"
    using m(1) out xd by simp
  show "length (remdups (labels (classifier_data out))) = 2"
    using m(2) out by simp
  show "length (known_flags w opts scvi_data) = length (Xmat scvi_data)"
    by (rule m(3))
qed

lemma merge_datasets_two:
  assumes "merge_datasets scvi_data known Xd tr = Inr cd"
  shows "length (remdups (labels cd)) = 2"
  using assms unfolding merge_datasets_def
  by (auto simp: Let_def split: if_splits sum.splits)

lemma main_Inr_two:
  assumes run: "main w opts args = Inr out"
  shows "length (remdups (labels (classifier_data out))) = 2"
proof -
  from run obtain sd t1 known kdd singlet tr2 n Xd tr3 cd tr4 where st:
    "load_data w (args ! 1) = Inr (sd, t1)"
    "split_known w opts sd t1 = Inr (known, kdd, singlet, tr2)"
    "simulate_doublets w opts (length (gene_names sd)) kdd singlet (train_vae opts tr2)
       = Inr (n, Xd, tr3)"
    "merge_datasets sd known Xd tr3 = Inr cd"
    "post_process w opts (length (Xmat sd)) known cd n tr4 = Inr out"
    by (rule main_Inr_stages)
  from st(5) have out: "classifier_data out = cd"
    by (rule post_process_Inr, simp)
  show ?thesis using merge_datasets_two [OF st(4)] out by simp
qed

subsection \<open>The number of doublets\<close>

lemma split_known_counts:
  assumes sp: "split_known w opts scvi_data tr = Inr (known, kdd, singlet, tr')"
    and bc: "boolean_column w opts"
  shows "(case int_of_product (opt_doublet_ratio opts) (length (Xmat singlet)) of
            Inl e \<Rightarrow> Inl e
          | Inr n0 \<Rightarrow> Inr (n0 - (case kdd of None \<Rightarrow> 0 | Some kd \<Rightarrow> int (length (Xmat kd)))))
         = claimed_num_doublets w opts scvi_data"
proof (cases "opt_known_doublets opts")
  case None
  with sp show ?thesis
    by (auto simp: split_known_def claimed_num_doublets_def split: sum.splits)
next
  case (Some fname)
  define m where "m = map (\<lambda>v. v = CBool True) (read_csv w fname)"
  have pv: "pandas_values (read_csv w fname) = BoolIndex m"
    using bc Some by (simp add: boolean_column_def pandas_values_def m_def)
  have kf: "known_flags w opts scvi_data = m"
    by (simp add: known_flags_def Some pv)
  from sp Some pv obtain kr sr where
    len: "length m = length (Xmat scvi_data)"
    and kr: "take_rows (Xmat scvi_data) (BoolIndex m) = Inr kr"
    and sr: "take_rows (Xmat scvi_data) (BoolIndex (map Not m)) = Inr sr"
    and k: "kdd = Some (make_gene_expression_dataset kr (gene_names scvi_data))"
    and s: "singlet = make_gene_expression_dataset sr (gene_names scvi_data)"
    by (auto simp: split_known_def Let_def split: if_splits sum.splits)
  have "length sr = length (filter (\<lambda>k. \<not> k) m)"
    using take_rows_length [OF sr] filter_map_Not [of m] by simp
  then have a: "length (Xmat singlet) = length (filter (\<lambda>k. \<not> k) m)"
    by (simp add: s make_gene_expression_dataset_def GeneExpressionDataset_def Let_def)
  have "length kr = length (filter (\<lambda>k. k) m)"
    using take_rows_length [OF kr] by simp
  then have b: "(case kdd of None \<Rightarrow> 0 | Some kd \<Rightarrow> int (length (Xmat kd)))
                   = int (length (filter (\<lambda>k. k) m))"
    by (simp add: k make_gene_expression_dataset_def GeneExpressionDataset_def Let_def)
  show ?thesis by (simp add: claimed_num_doublets_def Some kf a b split: sum.splits)
qed

lemma main_Inr_count:
  assumes run: "main w opts args = Inr out"
    and load: "load_data w (args ! 1) = Inr (scvi_data, tr1)"
  shows "boolean_column w opts \<Longrightarrow> claimed_num_doublets w opts scvi_data = Inr (num_doublets out)"
    and "filter is_simulation (trace out) = map SimulateDoublet [0..<nat (num_doublets out)]"
proof -
  from run obtain sd t1 known kdd singlet tr2 n Xd tr3 cd tr4 where st:
    "load_data w (args ! 1) = Inr (sd, t1)"
    "split_known w opts sd t1 = Inr (known, kdd, singlet, tr2)"
    "simulate_doublets w opts (length (gene_names sd)) kdd singlet (train_vae opts tr2)
       = Inr (n, Xd, tr3)"
    "train_classifier (json_load w (args ! 0)) tr3 = Inr tr4"
    "post_process w opts (length (Xmat sd)) known cd n tr4 = Inr out"
    by (rule main_Inr_stages)
  from st(1) load have sd: "sd = scvi_data" and t1: "t1 = []"
    using load_data_Inr [OF st(1)] by simp_all
  from st(5) obtain t tr' where pp:
    "select_threshold w (opt_expected_number_of_doublets opts)
       (take (length (Xmat sd)) (map snd (compute_predictions_soft w cd))) tr4 = Inr (t, tr')"
    "num_doublets out = n" "trace out = tr'"
    by (rule post_process_Inr) simp
  show "claimed_num_doublets w opts scvi_data = Inr (num_doublets out)"
    if "boolean_column w opts"
    using simulate_doublets_Inr(2) [OF st(3)] split_known_counts [OF st(2) that] pp(2) sd
    by auto
  have "tr4 = tr3 @ [TrainClassifier]"
    using st(4) by (auto simp: train_classifier_def split: if_splits)
  moreover have "tr3 = train_vae opts tr2 @ map SimulateDoublet [0..<nat n]"
    using simulate_doublets_Inr(4) [OF st(3)] .
  moreover have "filter is_simulation tr2 = []"
    using split_known_Inr(5) [OF st(2)] t1 by simp
  ultimately have "filter is_simulation tr4 = map SimulateDoublet [0..<nat n]"
    by (simp add: train_vae_no_simulation filter_simulation_map)
  then show "filter is_simulation (trace out) = map SimulateDoublet [0..<nat (num_doublets out)]"
    using select_threshold_trace [OF pp(1)] pp(2,3) by simp
qed

lemma simulate_loop_Inl:
  "simulate_loop w kind G X kw dis Xd tr = Inl (e, tr') \<Longrightarrow> filter is_simulation tr' \<noteq> []"
proof (induction dis arbitrary: Xd tr)
  case Nil
  then show ?case by simp
next
  case (Cons di dis)
  show ?case
  proof (cases "doublet_row w kind G X kw di")
    case (Inl x)
    with Cons.prems show ?thesis by auto
  next
    case (Inr r)
    with Cons.prems Cons.IH show ?thesis by auto
  qed
qed

lemma split_known_Inl_boolean:
  assumes "split_known w opts scvi_data tr = Inl x" and "boolean_column w opts"
  shows "fst x = AssertionError \<and> opt_known_doublets opts \<noteq> None
         \<and> filter is_simulation (snd x) = filter is_simulation tr"
proof -
  from assms(1) obtain fname where f: "opt_known_doublets opts = Some fname"
    by (auto simp: split_known_def split: option.splits)
  define m where "m = map (\<lambda>v. v = CBool True) (read_csv w fname)"
  have pv: "pandas_values (read_csv w fname) = BoolIndex m"
    using assms(2) f by (simp add: boolean_column_def pandas_values_def m_def)
  show ?thesis
    using assms(1) f pv by (auto simp: split_known_def Let_def split: if_splits)
qed

lemma simulate_passes:
  assumes sp: "split_known w opts scvi_data tr1 = Inr (known, kdd, singlet, tr2)"
    and bc: "boolean_column w opts"
    and cl: "claimed_num_doublets w opts scvi_data = Inr c" and c: "0 \<le> c"
  shows "(\<exists>Xd tr'. simulate_doublets w opts G kdd singlet tr = Inr (c, Xd, tr'))
         \<or> (\<exists>e tr'. simulate_doublets w opts G kdd singlet tr = Inl (e, tr')
                    \<and> filter is_simulation tr' \<noteq> [])"
    and "c = 0 \<Longrightarrow> simulate_doublets w opts G kdd singlet tr = Inr (0, [], tr)"
proof -
  from split_known_counts [OF sp bc] cl obtain n0 where
    n0: "int_of_product (opt_doublet_ratio opts) (length (Xmat singlet)) = Inr n0"
    and n: "n0 - (case kdd of None \<Rightarrow> 0 | Some kd \<Rightarrow> int (length (Xmat kd))) = c"
    by (auto split: sum.splits)
  let ?loop = "simulate_loop w (opt_doublet_type opts) G (Xmat singlet)
      \<lparr>doublet_depth = opt_doublet_depth opts, cell_depths = map (np_sum w) (Xmat singlet)\<rparr>
      [0..<nat c] [] tr"
  have sim: "simulate_doublets w opts G kdd singlet tr
               = (case ?loop of Inl x \<Rightarrow> Inl x | Inr (Xd, tr') \<Rightarrow> Inr (c, Xd, tr'))"
    using n0 n c by (cases kdd) (auto simp: simulate_doublets_def Let_def)
  show "(\<exists>Xd tr'. simulate_doublets w opts G kdd singlet tr = Inr (c, Xd, tr'))
         \<or> (\<exists>e tr'. simulate_doublets w opts G kdd singlet tr = Inl (e, tr')
                    \<and> filter is_simulation tr' \<noteq> [])"
  proof (cases ?loop)
    case (Inl x)
    then show ?thesis using sim simulate_loop_Inl [of _ _ _ _ _ _ _ _ "fst x" "snd x"]
      by (cases x) auto
  next
    case (Inr r)
    then show ?thesis using sim by (cases r) auto
  qed
  show "simulate_doublets w opts G kdd singlet tr = Inr (0, [], tr)" if "c = 0"
    using sim that by simp
qed

lemma main_count_failure:
  assumes args: "length args = 2"
    and load: "load_data w (args ! 1) = Inr (scvi_data, tr1)"
    and bc: "boolean_column w opts"
  shows "claimed_num_doublets w opts scvi_data = Inr c \<Longrightarrow> c < 0
         \<Longrightarrow> \<exists>tr. main w opts args
                   = Inl (if opt_known_doublets opts = None then ValueError else AssertionError, tr)
                 \<and> filter is_simulation tr = []"
    and "claimed_num_doublets w opts scvi_data = Inl e
         \<Longrightarrow> \<exists>e' tr. main w opts args = Inl (e', tr) \<and> filter is_simulation tr = []"
proof -
  have t1: "tr1 = []" using load_data_Inr [OF load] .
  let ?G = "length (gene_names scvi_data)"
  have both: "\<exists>e' tr. main w opts args = Inl (e', tr) \<and> filter is_simulation tr = []
        \<and> ((\<exists>c. claimed_num_doublets w opts scvi_data = Inr c)
             \<longrightarrow> e' = (if opt_known_doublets opts = None then ValueError else AssertionError))"
    if bad: "(\<exists>c<0. claimed_num_doublets w opts scvi_data = Inr c)
             \<or> (\<exists>e. claimed_num_doublets w opts scvi_data = Inl e)"
  proof (cases "split_known w opts scvi_data tr1")
    case (Inl x)
    from split_known_Inl_boolean [OF Inl bc] t1 show ?thesis
      using Inl args load by (cases x) (auto simp: main_def Let_def)
  next
    case (Inr r)
    then obtain known kdd singlet tr2 where
      sp: "split_known w opts scvi_data tr1 = Inr (known, kdd, singlet, tr2)"
      by (cases r) auto
    note cnt = split_known_counts [OF sp bc]
    have kd: "kdd = None \<longleftrightarrow> opt_known_doublets opts = None"
      using split_known_Inr(4) [OF sp] .
    have ns: "filter is_simulation (train_vae opts tr2) = []"
      using split_known_Inr(5) [OF sp] t1 by (simp add: train_vae_no_simulation)
    have "\<exists>e'. simulate_doublets w opts ?G kdd singlet (train_vae opts tr2)
            = Inl (e', train_vae opts tr2)
          \<and> ((\<exists>c. claimed_num_doublets w opts scvi_data = Inr c)
             \<longrightarrow> e' = (if kdd = None then ValueError else AssertionError))"
      using bad cnt
      by (cases kdd)
        (auto simp: simulate_doublets_def Let_def split: sum.splits)
    then show ?thesis using args load sp kd ns by (auto simp: main_def Let_def)
  qed
  show "\<exists>tr. main w opts args
                   = Inl (if opt_known_doublets opts = None then ValueError else AssertionError, tr)
                 \<and> filter is_simulation tr = []"
    if "claimed_num_doublets w opts scvi_data = Inr c" "c < 0"
    using both that by blast
  show "\<exists>e' tr. main w opts args = Inl (e', tr) \<and> filter is_simulation tr = []"
    if "claimed_num_doublets w opts scvi_data = Inl e"
    using both that by blast
qed

subsection \<open>The small run, evaluated\<close>

lemma example_run: "main example_world known_run_options example_args = Inr example_out"
  by code_simp

lemma example_load: "load_data example_world (example_args ! 1) = Inr (example_data, [])"
  by code_simp

lemma example_soft_contract:
  "length (compute_predictions_soft example_world (classifier_data example_out))
     = length (Xmat (classifier_data example_out))"
  by code_simp

lemma example_hard_contract:
  "length (compute_predictions example_world (classifier_data example_out))
     = length (Xmat (classifier_data example_out))"
  by code_simp

section \<open>The claims\<close>

text \<open>
  C1.  In every run that returns, the labels of the dataset handed to the classifier take
  exactly two values.  When the data file is loaded with label 0 on every cell and the
  known-doublets file, if there is one, is read as a column of booleans, the labelled dataset
  has one label per real cell followed by one per synthetic doublet; a real cell carries
  label 1 if it is a known doublet and label 0 otherwise, and every synthetic doublet carries
  label 1.
\<close>

theorem classifier_labels:
  assumes run: "main w opts args = Inr out"
    and load: "load_data w (args ! 1) = Inr (scvi_data, tr1)"
  shows "card (set (labels (classifier_data out))) = 2
       \<and> (boolean_column w opts
            \<and> labels scvi_data = replicate (length (Xmat scvi_data)) 0 \<longrightarrow>
           length (labels (classifier_data out))
             = length (Xmat scvi_data) + nat (num_doublets out)
           \<and> (\<forall>c<length (Xmat scvi_data).
                 labels (classifier_data out) ! c
                   = (if known_flags w opts scvi_data ! c then 1 else 0))
           \<and> (\<forall>d<nat (num_doublets out).
                 labels (classifier_data out) ! (length (Xmat scvi_data) + d) = 1))"
proof (intro conjI impI)
  have "card (set (labels (classifier_data out)))
          = length (remdups (labels (classifier_data out)))"
    by (simp add: length_remdups_card_conv)
  then show "card (set (labels (classifier_data out))) = 2"
    using main_Inr_two [OF run] by simp
next
  assume h: "boolean_column w opts
             \<and> labels scvi_data = replicate (length (Xmat scvi_data)) 0"
  note l = main_Inr_labels [OF run load h [THEN conjunct1] h [THEN conjunct2]]
  show "length (labels (classifier_data out))
          = length (Xmat scvi_data) + nat (num_doublets out)"
    using l(3) by (simp add: l(1))
  show "\<forall>c<length (Xmat scvi_data).
          labels (classifier_data out) ! c
            = (if known_flags w opts scvi_data ! c then 1 else 0)"
    using l(3) by (simp add: l(1) nth_append)
  show "\<forall>d<nat (num_doublets out).
          labels (classifier_data out) ! (length (Xmat scvi_data) + d) = 1"
    using l(3) by (simp add: l(1) nth_append)
qed

theorem classifier_labels_witness:
  "labels example_data = [0, 0, 0]
   \<and> boolean_column example_world known_run_options
   \<and> known_flags example_world known_run_options example_data = [True, False, False]
   \<and> num_doublets example_out = 3
   \<and> labels (classifier_data example_out) = [1, 0, 0, 1, 1, 1]
   \<and> card (set (labels (classifier_data example_out))) = 2
   \<and> length (labels (classifier_data example_out)) = 6
   \<and> labels (classifier_data example_out) ! 1 = 0
   \<and> labels (classifier_data example_out) ! (3 + 2) = 1"
proof -
  have z: "labels example_data = replicate (length (Xmat example_data)) 0" by code_simp
  have bc: "boolean_column example_world known_run_options" by code_simp
  have e: "labels example_data = [0, 0, 0]"
    "known_flags example_world known_run_options example_data = [True, False, False]"
    "labels (classifier_data example_out) = [1, 0, 0, 1, 1, 1]"
    "num_doublets example_out = 3" "length (Xmat example_data) = 3"
    by code_simp+
  note t = classifier_labels [OF example_run example_load]
  have two: "card (set (labels (classifier_data example_out))) = 2" using t by blast
  have len: "length (labels (classifier_data example_out))
               = length (Xmat example_data) + nat (num_doublets example_out)"
    and real: "\<forall>c<length (Xmat example_data).
                 labels (classifier_data example_out) ! c
                   = (if known_flags example_world known_run_options example_data ! c
                      then 1 else 0)"
    and sim: "\<forall>d<nat (num_doublets example_out).
                 labels (classifier_data example_out) ! (length (Xmat example_data) + d) = 1"
    using t z bc by blast+
  have a: "length (labels (classifier_data example_out)) = 6" using len e(4,5) by simp
  have b: "labels (classifier_data example_out) ! 1 = 0" using real e(2,5) by simp
  have "(2::nat) < nat (num_doublets example_out)" using e(4) by simp
  with sim have "labels (classifier_data example_out) ! (length (Xmat example_data) + 2) = 1"
    by blast
  then have c: "labels (classifier_data example_out) ! (3 + 2) = 1" using e(5) by simp
  show ?thesis using e(1-4) bc two a b c by simp
qed

text \<open>
  Three runs that return.  In the first the known-doublets file flags cell 0, a real cell,
  which carries label 1.  In the second no known doublets are given and the data file is
  loaded with labels 0, 1, 0: the real cell 1 keeps label 1.  In the third the
  known-doublets file holds 1, 0, 0, which is read as a column of integers, so that
  \<open>labels[known_doublets] += 1\<close> raises the labels at positions 1 and 0: cell 1, which the
  file does not flag, carries label 1.
\<close>

theorem classifier_labels_counterexample:
  "main example_world known_run_options example_args = Inr example_out
   \<and> length (Xmat example_data) = 3
   \<and> labels (classifier_data example_out) ! 0 = 1
   \<and> opt_known_doublets example_options = None
   \<and> (case main (example_world\<lparr>LoomDataset := \<lambda>f. example_data\<lparr>labels := [0, 1, 0],
                                                               n_labels := 2\<rparr>\<rparr>)
              example_options example_args of
         Inl e \<Rightarrow> None | Inr out \<Rightarrow> Some (labels (classifier_data out)))
       = Some [0, 1, 0, 1, 1, 1]
   \<and> known_flags (example_world\<lparr>read_csv := \<lambda>f. [CInt 1, CInt 0, CInt 0]\<rparr>)
        known_run_options example_data = [True, False, False]
   \<and> (case main (example_world\<lparr>read_csv := \<lambda>f. [CInt 1, CInt 0, CInt 0]\<rparr>)
              known_run_options example_args of
         Inl e \<Rightarrow> None | Inr out \<Rightarrow> Some (labels (classifier_data out)))
       = Some [1, 1, 0, 1, 1, 1]"
  by code_simp

text \<open>
  C2.  The threshold is 0.5 without an expected number of doublets, and for an expected
  number \<open>e\<close> it is meant to be the \<open>k\<close>-th smallest real-cell score with \<open>k = n - e\<close>,
  asserted positive; every run that returns has used that threshold on the scores of the
  real cells (\<open>main_threshold\<close>).  The code does not deliver it for \<open>e = 0\<close>: in the run
  below, with three real cells, \<open>k = 3\<close> passes the assertion and \<open>np.argpartition\<close> then
  raises ValueError, because it takes only positions below the length; the run ends there,
  after training, where the largest score was to be the threshold.
\<close>

theorem threshold_zero_expected:
  "main example_world (example_options\<lparr>opt_expected_number_of_doublets := Some 0\<rparr>) example_args
     = Inl (ValueError,
            [TrainVAE, SimulateDoublet 0, SimulateDoublet 1, SimulateDoublet 2, TrainClassifier])
   \<and> select_threshold example_world (Some 0) [1 / 3, 0, 2 / 3] [] = Inl (ValueError, [])
   \<and> select_threshold example_world (Some 1) [1 / 3, 0, 2 / 3] [] = Inr (1 / 3, [])"
  by code_simp

text \<open>
  C3.  When the extension of the data file is neither \<open>.loom\<close> nor \<open>.h5ad\<close>, the branch on the
  extension prints 'Unrecognized file format' and returns with \<open>scvi_data\<close> unbound; the run
  goes on to the next statement, which reads the unbound name, and so ends in Python's
  UnboundLocalError with nothing but the message printed, rather than in an exit of its own.
\<close>

theorem unrecognized_format_proceeds:
  assumes "length args = 2"
    and "splitext_ext (args ! 1) \<noteq> ''.loom''" "splitext_ext (args ! 1) \<noteq> ''.h5ad''"
  shows "read_data w (args ! 1) = ([Print ''Unrecognized file format''], None)
       \<and> main w opts args = Inl (UnboundLocalError, [Print ''Unrecognized file format''])"
  using assms by (simp add: main_def load_data_def read_data_def Let_def)

theorem unrecognized_format_proceeds_witness:
  "splitext_ext ''cells.csv'' = ''.csv''
   \<and> main example_world example_options [''model.json'', ''cells.csv'']
       = Inl (UnboundLocalError, [Print ''Unrecognized file format''])"
proof -
  have a: "length [''model.json'', ''cells.csv''] = 2" by simp
  have b: "splitext_ext ([''model.json'', ''cells.csv''] ! 1) \<noteq> ''.loom''"
    "splitext_ext ([''model.json'', ''cells.csv''] ! 1) \<noteq> ''.h5ad''"
    by code_simp+
  have "splitext_ext ''cells.csv'' = ''.csv''" by code_simp
  then show ?thesis
    using unrecognized_format_proceeds [OF a b, of example_world example_options] by simp
qed

text \<open>
  C6.  For a known-doublets file that is read as a column of booleans, or no such
  file: in every run that returns, the number of synthetic doublets is
  \<open>int(doublet_ratio * number of singlet cells)\<close>, a product of doubles, less the number of
  known doublets when a file of them is supplied; it is not negative, and exactly that many
  doublets are synthesized and appended to the real cells.  When that number is negative the
  run ends before any doublet is synthesized: in the AssertionError of the assertion when a
  known-doublets file is supplied, and otherwise, where no assertion is made, in the
  ValueError of the allocation of the doublet matrix.  When it is not negative, zero
  included, the simulation stage goes past the assertion: it returns that many doublets or
  fails while it synthesizes one.  When the product has no integer value (a ratio that is an
  infinity or NaN) the run ends before any doublet is synthesized.
\<close>

theorem num_doublets_simulated:
  assumes args: "length args = 2"
    and load: "load_data w (args ! 1) = Inr (scvi_data, tr1)"
    and bc: "boolean_column w opts"
  shows "(main w opts args = Inr out \<longrightarrow>
            claimed_num_doublets w opts scvi_data = Inr (num_doublets out)
          \<and> 0 \<le> num_doublets out
          \<and> filter is_simulation (trace out) = map SimulateDoublet [0..<nat (num_doublets out)]
          \<and> length (Xmat (classifier_data out))
              = length (Xmat scvi_data) + nat (num_doublets out))
       \<and> (\<forall>c<0. claimed_num_doublets w opts scvi_data = Inr c \<longrightarrow>
            (\<exists>tr. main w opts args
                     = Inl (if opt_known_doublets opts = None then ValueError
                            else AssertionError, tr)
                 \<and> filter is_simulation tr = []))
       \<and> (\<forall>c\<ge>0. claimed_num_doublets w opts scvi_data = Inr c \<longrightarrow>
            (\<forall>known kdd singlet tr2 tr.
               split_known w opts scvi_data tr1 = Inr (known, kdd, singlet, tr2) \<longrightarrow>
                 ((\<exists>Xd tr'. simulate_doublets w opts (length (gene_names scvi_data)) kdd singlet tr
                              = Inr (c, Xd, tr'))
                  \<or> (\<exists>e tr'. simulate_doublets w opts (length (gene_names scvi_data)) kdd singlet tr
                               = Inl (e, tr') \<and> filter is_simulation tr' \<noteq> []))
               \<and> (c = 0 \<longrightarrow> simulate_doublets w opts (length (gene_names scvi_data)) kdd singlet tr
                               = Inr (0, [], tr))))
       \<and> (\<forall>e. claimed_num_doublets w opts scvi_data = Inl e \<longrightarrow>
            (\<exists>e' tr. main w opts args = Inl (e', tr) \<and> filter is_simulation tr = []))"
proof (intro conjI impI allI)
  assume run: "main w opts args = Inr out"
  show "claimed_num_doublets w opts scvi_data = Inr (num_doublets out)"
    by (rule main_Inr_count(1) [OF run load bc])
  show "0 \<le> num_doublets out" by (rule main_Inr_facts(2) [OF run load])
  show "filter is_simulation (trace out) = map SimulateDoublet [0..<nat (num_doublets out)]"
    by (rule main_Inr_count(2) [OF run load])
  show "length (Xmat (classifier_data out)) = length (Xmat scvi_data) + nat (num_doublets out)"
    by (rule main_Inr_facts(3) [OF run load])
next
  fix c :: int
  assume "c < 0" "claimed_num_doublets w opts scvi_data = Inr c"
  then show "\<exists>tr. main w opts args
                     = Inl (if opt_known_doublets opts = None then ValueError
                            else AssertionError, tr)
                 \<and> filter is_simulation tr = []"
    using main_count_failure(1) [OF args load bc] by blast
next
  fix c :: int and known kdd singlet tr2 tr
  assume c: "0 \<le> c" "claimed_num_doublets w opts scvi_data = Inr c"
    and sp: "split_known w opts scvi_data tr1 = Inr (known, kdd, singlet, tr2)"
  show "(\<exists>Xd tr'. simulate_doublets w opts (length (gene_names scvi_data)) kdd singlet tr
                              = Inr (c, Xd, tr'))
        \<or> (\<exists>e tr'. simulate_doublets w opts (length (gene_names scvi_data)) kdd singlet tr
                               = Inl (e, tr') \<and> filter is_simulation tr' \<noteq> [])"
    by (rule simulate_passes(1) [OF sp bc c(2,1)])
  show "simulate_doublets w opts (length (gene_names scvi_data)) kdd singlet tr = Inr (0, [], tr)"
    if "c = 0"
    by (rule simulate_passes(2) [OF sp bc c(2,1) that])
next
  fix e
  assume "claimed_num_doublets w opts scvi_data = Inl e"
  then show "\<exists>e' tr. main w opts args = Inl (e', tr) \<and> filter is_simulation tr = []"
    by (rule main_count_failure(2) [OF args load bc])
qed

theorem num_doublets_simulated_witness:
  "boolean_column example_world known_run_options
   \<and> claimed_num_doublets example_world known_run_options example_data = Inr 3
   \<and> num_doublets example_out = 3
   \<and> filter is_simulation (trace example_out)
       = [SimulateDoublet 0, SimulateDoublet 1, SimulateDoublet 2]
   \<and> length (Xmat (classifier_data example_out)) = 6
   \<and> claimed_num_doublets example_world (known_run_options\<lparr>opt_doublet_ratio := Fin (1 / 4)\<rparr>)
         example_data = Inr (- 1)
   \<and> main example_world (known_run_options\<lparr>opt_doublet_ratio := Fin (1 / 4)\<rparr>) example_args
       = Inl (AssertionError,
              [Print ''Removing known doublets for in silico doublet generation'',
               Print ''Make sure known doublets are in the same order as your data'',
               TrainVAE])
   \<and> int_of_product (float64 (29 / 100)) 100 = Inr 28"
proof -
  have a: "length example_args = 2" by code_simp
  have bc: "boolean_column example_world known_run_options" by code_simp
  have n: "num_doublets example_out = 3" "length (Xmat example_data) = 3" by code_simp+
  note t = num_doublets_simulated [OF a example_load bc, of example_out]
  have r1: "claimed_num_doublets example_world known_run_options example_data
              = Inr (num_doublets example_out)"
    and r2: "filter is_simulation (trace example_out)
              = map SimulateDoublet [0..<nat (num_doublets example_out)]"
    and r3: "length (Xmat (classifier_data example_out))
              = length (Xmat example_data) + nat (num_doublets example_out)"
    using t example_run by blast+
  have s: "map SimulateDoublet [0..<nat 3]
             = [SimulateDoublet 0, SimulateDoublet 1, SimulateDoublet 2]"
    by code_simp
  let ?o = "known_run_options\<lparr>opt_doublet_ratio := Fin (1 / 4)\<rparr>"
  have bc': "boolean_column example_world ?o" by code_simp
  have c: "claimed_num_doublets example_world ?o example_data = Inr (- 1)" by code_simp
  have k: "opt_known_doublets ?o \<noteq> None" by code_simp
  note t' = num_doublets_simulated [OF a example_load bc', of example_out]
  have "\<exists>tr. main example_world ?o example_args
                = Inl (if opt_known_doublets ?o = None then ValueError else AssertionError, tr)
              \<and> filter is_simulation tr = []"
    using t' c by (meson neg_less_0_iff_less zero_less_one)
  then obtain tr where f: "main example_world ?o example_args = Inl (AssertionError, tr)"
    and g: "filter is_simulation tr = []"
    using k by auto
  have m: "main example_world ?o example_args
       = Inl (AssertionError,
              [Print ''Removing known doublets for in silico doublet generation'',
               Print ''Make sure known doublets are in the same order as your data'',
               TrainVAE])"
  proof -
    have "main example_world ?o example_args
       = Inl (AssertionError,
              [Print ''Removing known doublets for in silico doublet generation'',
               Print ''Make sure known doublets are in the same order as your data'',
               TrainVAE])"
      by code_simp
    with f g show ?thesis by simp
  qed
  have p: "int_of_product (float64 (29 / 100)) 100 = Inr 28" by code_simp
  show ?thesis using bc r1 r2 r3 n s c m p by simp
qed

theorem num_doublets_counterexample:
  "opt_known_doublets (example_options\<lparr>opt_doublet_ratio := Fin (- 1)\<rparr>) = None
   \<and> int_of_product (Fin (- 1)) (length (Xmat example_data)) = Inr (- 3)
   \<and> main example_world (example_options\<lparr>opt_doublet_ratio := Fin (- 1)\<rparr>) example_args
       = Inl (ValueError, [TrainVAE])
   \<and> known_flags (example_world\<lparr>read_csv := \<lambda>f. [CInt 1, CInt 0, CInt 0]\<rparr>)
         (known_run_options\<lparr>opt_doublet_ratio := Fin 1\<rparr>) example_data = [True, False, False]
   \<and> int_of_product (Fin 1) 2 = Inr 2
   \<and> (case main (example_world\<lparr>read_csv := \<lambda>f. [CInt 1, CInt 0, CInt 0]\<rparr>)
              (known_run_options\<lparr>opt_doublet_ratio := Fin 1\<rparr>) example_args of
         Inl e \<Rightarrow> None
       | Inr out \<Rightarrow> Some (num_doublets out, filter is_simulation (trace out)))
       = Some (0, [])"
  by code_simp

text \<open>
  C7.  When a known-doublets file is supplied and the number of its entries differs from the
  number of cells of the expression matrix, the run ends in an AssertionError; all it has
  done by then is print its two notices, so no model has been trained and no doublet
  generated.
\<close>

theorem known_doublets_length_asserted:
  assumes "length args = 2"
    and "load_data w (args ! 1) = Inr (scvi_data, tr1)"
    and "opt_known_doublets opts = Some fname"
    and "length (read_csv w fname) \<noteq> length (Xmat scvi_data)"
  shows "main w opts args
           = Inl (AssertionError,
                  [Print ''Removing known doublets for in silico doublet generation'',
                   Print ''Make sure known doublets are in the same order as your data''])"
  using assms load_data_Inr [OF assms(2)]
  by (simp add: main_def split_known_def Let_def)

theorem known_doublets_length_asserted_witness:
  "length (read_csv (example_world\<lparr>read_csv := \<lambda>f. [CBool True, CBool False]\<rparr>) ''known.tsv'') = 2
   \<and> length (Xmat example_data) = 3
   \<and> main (example_world\<lparr>read_csv := \<lambda>f. [CBool True, CBool False]\<rparr>) known_run_options example_args
       = Inl (AssertionError,
              [Print ''Removing known doublets for in silico doublet generation'',
               Print ''Make sure known doublets are in the same order as your data''])"
proof -
  let ?w = "example_world\<lparr>read_csv := \<lambda>f. [CBool True, CBool False]\<rparr>"
  have a: "length example_args = 2" by code_simp
  have b: "load_data ?w (example_args ! 1) = Inr (example_data, [])" by code_simp
  have c: "opt_known_doublets known_run_options = Some ''known.tsv''" by code_simp
  have d: "length (read_csv ?w ''known.tsv'') \<noteq> length (Xmat example_data)" by code_simp
  have "length (read_csv ?w ''known.tsv'') = 2" "length (Xmat example_data) = 3"
    by code_simp+
  then show ?thesis
    using known_doublets_length_asserted [OF a b c d] by simp
qed

text \<open>
  C8.  In every run that returns, with the trainer's two prediction calls giving one entry
  per cell of the labelled dataset, the arrays saved as scores.npy, preds.npy and
  is_doublet.npy have as many entries as the input expression matrix has cells.
\<close>

theorem real_cell_output_lengths:
  assumes run: "main w opts args = Inr out"
    and load: "load_data w (args ! 1) = Inr (scvi_data, tr1)"
    and soft: "length (compute_predictions_soft w (classifier_data out))
                 = length (Xmat (classifier_data out))"
    and hard: "length (compute_predictions w (classifier_data out))
                 = length (Xmat (classifier_data out))"
  shows "length (scores_npy out) = length (Xmat scvi_data)
       \<and> length (preds_npy out) = length (Xmat scvi_data)
       \<and> length (is_doublet_npy out) = length (Xmat scvi_data)"
proof -
  note f = main_Inr_facts [OF run load]
  show ?thesis using f(3,4,6,8) soft hard by simp
qed

theorem real_cell_output_lengths_witness:
  "length (Xmat example_data) = 3
   \<and> length (scores_npy example_out) = 3
   \<and> length (preds_npy example_out) = 3
   \<and> length (is_doublet_npy example_out) = 3"
proof -
  have "length (Xmat example_data) = 3" by code_simp
  then show ?thesis
    using real_cell_output_lengths
      [OF example_run example_load example_soft_contract example_hard_contract]
    by simp
qed

text \<open>
  C9.  In every run that returns, is_doublet.npy has one flag per cell; every cell that the
  input marks as a known doublet is flagged in it; and, with one score per cell of the
  labelled dataset, a cell is flagged exactly when it is a known doublet or its score is
  above the threshold, so the only flags added are new calls and none is cleared.
\<close>

theorem known_doublets_stay_flagged:
  assumes run: "main w opts args = Inr out"
    and load: "load_data w (args ! 1) = Inr (scvi_data, tr1)"
  shows "length (is_doublet_npy out) = length (known_flags w opts scvi_data)
       \<and> (\<forall>c<length (known_flags w opts scvi_data).
             known_flags w opts scvi_data ! c \<longrightarrow> is_doublet_npy out ! c)
       \<and> (length (compute_predictions_soft w (classifier_data out))
             = length (Xmat (classifier_data out)) \<longrightarrow>
           (\<forall>c<length (known_flags w opts scvi_data).
              is_doublet_npy out ! c
                \<longleftrightarrow> known_flags w opts scvi_data ! c \<or> threshold out < scores_npy out ! c))"
proof -
  note f = main_Inr_facts [OF run load]
  show ?thesis using f(1,8,10) f(11) by simp
qed

theorem known_doublets_stay_flagged_witness:
  "known_flags example_world known_run_options example_data = [True, False, False]
   \<and> is_doublet_npy example_out = [True, False, True]
   \<and> scores_npy example_out = [1 / 3, 0, 2 / 3] \<and> threshold example_out = 1 / 2
   \<and> is_doublet_npy example_out ! 0
   \<and> (is_doublet_npy example_out ! 2
        \<longleftrightarrow> known_flags example_world known_run_options example_data ! 2
            \<or> threshold example_out < scores_npy example_out ! 2)"
proof -
  have k: "known_flags example_world known_run_options example_data = [True, False, False]"
    by code_simp
  have o: "is_doublet_npy example_out = [True, False, True]"
    "scores_npy example_out = [1 / 3, 0, 2 / 3]" "threshold example_out = 1 / 2"
    by code_simp+
  note t = known_doublets_stay_flagged [OF example_run example_load]
  have "\<forall>c<length (known_flags example_world known_run_options example_data).
           known_flags example_world known_run_options example_data ! c
             \<longrightarrow> is_doublet_npy example_out ! c"
    using t by blast
  then have first: "is_doublet_npy example_out ! 0" using k by simp
  have "\<forall>c<length (known_flags example_world known_run_options example_data).
           is_doublet_npy example_out ! c
             \<longleftrightarrow> known_flags example_world known_run_options example_data ! c
                 \<or> threshold example_out < scores_npy example_out ! c"
    using t example_soft_contract by blast
  then have "is_doublet_npy example_out ! 2
        \<longleftrightarrow> known_flags example_world known_run_options example_data ! 2
            \<or> threshold example_out < scores_npy example_out ! 2"
    using k by simp
  then show ?thesis using first k o by simp
qed

text \<open>
  C10.  In every run that returns, the array saved as is_doublet_sim.npy is empty, because
  the flags exist for the real cells only; with one prediction per cell of the labelled
  dataset, scores_sim.npy and preds_sim.npy have one entry per synthetic doublet.
\<close>

theorem simulated_output_lengths:
  assumes run: "main w opts args = Inr out"
    and load: "load_data w (args ! 1) = Inr (scvi_data, tr1)"
    and soft: "length (compute_predictions_soft w (classifier_data out))
                 = length (Xmat (classifier_data out))"
    and hard: "length (compute_predictions w (classifier_data out))
                 = length (Xmat (classifier_data out))"
  shows "is_doublet_sim_npy out = []
       \<and> length (is_doublet_npy out) = length (Xmat scvi_data)
       \<and> length (scores_sim_npy out) = nat (num_doublets out)
       \<and> length (preds_sim_npy out) = nat (num_doublets out)
       \<and> length (Xmat (classifier_data out)) = length (Xmat scvi_data) + nat (num_doublets out)"
proof -
  note f = main_Inr_facts [OF run load]
  show ?thesis using f(3,5,7,8,9) soft hard by simp
qed

theorem simulated_output_lengths_witness:
  "num_doublets example_out = 3
   \<and> is_doublet_sim_npy example_out = []
   \<and> length (scores_sim_npy example_out) = 3
   \<and> length (preds_sim_npy example_out) = 3"
proof -
  have "num_doublets example_out = 3" by code_simp
  then show ?thesis
    using simulated_output_lengths
      [OF example_run example_load example_soft_contract example_hard_contract]
    by simp
qed

end
